theory Spec2Isabelle
  imports Complex_Main "HOL-Library.Word"
begin

unbundle bit_operations_syntax

section \<open>JavaScript values as the server sees them\<close>

text \<open>
  The server (\<^verbatim>\<open>server.js\<close>) is a Node program. Its strings are sequences of UTF-16 code
  units, its buffers are sequences of bytes. Property names that the program reads are ASCII
  literals of the source (\<^verbatim>\<open>row.Salt\<close>, \<^verbatim>\<open>row[`Date${i}`]\<close>); they are written as HOL strings.
\<close>

type_synonym code_unit = "16 word"
type_synonym jsstring = "code_unit list"
type_synonym byte = "8 word"

definition lit :: "string \<Rightarrow> jsstring" where
  "lit s = map of_char s"

text \<open>
  The exceptions the modelled code can raise: \<^verbatim>\<open>new Error(...)\<close> of \<^verbatim>\<open>parseXlsx\<close>, the
  \<^verbatim>\<open>SyntaxError\<close> of \<^verbatim>\<open>JSON.parse\<close>, the \<^verbatim>\<open>TypeError\<close> of a property read on \<^verbatim>\<open>null\<close> or of a
  failed conversion to a primitive, and the \<^verbatim>\<open>RangeError\<close> of \<^verbatim>\<open>crypto.timingSafeEqual\<close> and
  of \<^verbatim>\<open>Date.prototype.toISOString\<close>.
\<close>

datatype error = Error | SyntaxError | TypeError | RangeError

text \<open>
  A JavaScript number. A finite double is a rational; \<^verbatim>\<open>-0\<close> is identified with \<^verbatim>\<open>0\<close>, which no
  operation used here tells apart (\<^verbatim>\<open>String\<close>, truthiness, \<^verbatim>\<open>Number.isFinite\<close>, property keys).
\<close>

datatype jsnum = NaN | PosInfinity | NegInfinity | Fin rat

text \<open>A spreadsheet cell, or any other scalar: what a property read on a parsed row yields.\<close>

datatype cell = JUndefined | JNull | JBool bool | JNum jsnum | JStr jsstring

text \<open>A parsed JSON request body; \<^verbatim>\<open>JObj\<close> lists the own properties.\<close>

datatype json = JScalar cell | JArr "json list" | JObj "(string \<times> json) list"

text \<open>A row object of the \<^verbatim>\<open>objects\<close> mode: a missing property reads as \<^verbatim>\<open>undefined\<close>.\<close>

type_synonym row = "string \<Rightarrow> cell"

text \<open>
  A note \<^verbatim>\<open>{ type, text }\<close> of a program rule, and the arrays that the rule loop of
  \<^verbatim>\<open>loadData\<close> can leave on \<^verbatim>\<open>Object.prototype\<close> (see \<open>ruleRow\<close>): an element is a note, or the
  notes array of a later row; \<open>None\<close> is a hole. \<open>prototypeProps\<close> maps the name of each
  property that the program has put on \<^verbatim>\<open>Object.prototype\<close> to its array.
\<close>

datatype ruleNote = Note jsstring jsstring

datatype arrayElem = NoteElem ruleNote | NotesElem "ruleNote list"

type_synonym jsarray = "arrayElem option list"

type_synonym prototypeProps = "jsstring \<rightharpoonup> jsarray"

subsection \<open>Primitives of the runtime\<close>

text \<open>
  The library functions whose results the program only passes on are parameters of the
  model: every theorem below holds for all of them.
  \<^item> \<open>scryptSync password salt keylen\<close>: \<^verbatim>\<open>crypto.scryptSync\<close>;
  \<^item> \<open>sha256 s\<close>: \<^verbatim>\<open>crypto.createHash('sha256').update(s).digest()\<close>;
  \<^item> \<open>numberToString\<close>: \<^verbatim>\<open>String(n)\<close> of a number;
  \<^item> \<open>stringToNumber\<close>: \<^verbatim>\<open>Number(s)\<close> of a string;
  \<^item> \<open>toLocaleLowerCase\<close>: \<^verbatim>\<open>s.toLocaleLowerCase('en-US')\<close>;
  \<^item> \<open>dateToISOString v\<close>: \<^verbatim>\<open>new Date(v).toISOString()\<close>, \<open>None\<close> when the date is invalid
    and \<^verbatim>\<open>toISOString\<close> throws a \<^verbatim>\<open>RangeError\<close>;
  \<^item> \<open>arrayToString props k\<close>: \<^verbatim>\<open>String(a)\<close> of the array \<^verbatim>\<open>a\<close> that \<^verbatim>\<open>Object.prototype\<close> holds
    under the name \<open>k\<close>, that is \<^verbatim>\<open>a.join()\<close>, which reads the holes of an array through
    \<^verbatim>\<open>Object.prototype\<close>.
\<close>

record runtime =
  scryptSync :: "jsstring \<Rightarrow> jsstring \<Rightarrow> nat \<Rightarrow> byte list"
  sha256 :: "jsstring \<Rightarrow> byte list"
  numberToString :: "jsnum \<Rightarrow> jsstring"
  stringToNumber :: "jsstring \<Rightarrow> jsnum"
  toLocaleLowerCase :: "jsstring \<Rightarrow> jsstring"
  dateToISOString :: "cell \<Rightarrow> jsstring option"
  arrayToString :: "prototypeProps \<Rightarrow> jsstring \<Rightarrow> jsstring"

subsection \<open>Strings: \<^verbatim>\<open>trim\<close>, \<^verbatim>\<open>String\<close>, truthiness\<close>

text \<open>\<^verbatim>\<open>String.prototype.trim\<close> strips white space and line terminators at both ends.\<close>

definition isWhiteSpace :: "code_unit \<Rightarrow> bool" where
  "isWhiteSpace u = (u \<in> set [0x9, 0xA, 0xB, 0xC, 0xD, 0x20, 0xA0, 0x1680,
     0x2000, 0x2001, 0x2002, 0x2003, 0x2004, 0x2005, 0x2006, 0x2007, 0x2008, 0x2009, 0x200A,
     0x2028, 0x2029, 0x202F, 0x205F, 0x3000, 0xFEFF])"

definition trim :: "jsstring \<Rightarrow> jsstring" where
  "trim s = rev (dropWhile isWhiteSpace (rev (dropWhile isWhiteSpace s)))"

fun toStr :: "runtime \<Rightarrow> cell \<Rightarrow> jsstring" where
  "toStr R JUndefined = lit ''undefined''"
| "toStr R JNull = lit ''null''"
| "toStr R (JBool b) = (if b then lit ''true'' else lit ''false'')"
| "toStr R (JNum n) = numberToString R n"
| "toStr R (JStr s) = s"

fun truthy :: "cell \<Rightarrow> bool" where
  "truthy JUndefined = False"
| "truthy JNull = False"
| "truthy (JBool b) = b"
| "truthy (JNum n) = (n \<noteq> NaN \<and> n \<noteq> Fin 0)"
| "truthy (JStr s) = (s \<noteq> [])"

text \<open>The operator \<^verbatim>\<open>a || b\<close>: the left operand when it is truthy, else the right one.\<close>

definition jsOr :: "cell \<Rightarrow> cell \<Rightarrow> cell" where
  "jsOr a b = (if truthy a then a else b)"

text \<open>
  \<^verbatim>\<open>
  function cleanValue(value){
    if(value === undefined || value === null) return '';
    return String(value).trim();
  }
  function normalizeProgramName(name){
    return cleanValue(name).toLocaleLowerCase('en-US');
  }
  function hasValue(value){
    return value !== undefined && value !== null && cleanValue(value) !== '';
  }
  \<close>
\<close>

definition cleanValue :: "runtime \<Rightarrow> cell \<Rightarrow> jsstring" where
  "cleanValue R v = (if v = JUndefined \<or> v = JNull then [] else trim (toStr R v))"

definition normalizeProgramName :: "runtime \<Rightarrow> cell \<Rightarrow> jsstring" where
  "normalizeProgramName R name = toLocaleLowerCase R (cleanValue R name)"

definition hasValue :: "runtime \<Rightarrow> cell \<Rightarrow> bool" where
  "hasValue R v = (v \<noteq> JUndefined \<and> v \<noteq> JNull \<and> cleanValue R v \<noteq> [])"

subsection \<open>Buffers and the \<^verbatim>\<open>hex\<close> encoding\<close>

text \<open>
  \<^verbatim>\<open>buf.toString('hex')\<close> writes two lower-case digits per byte. \<^verbatim>\<open>Buffer.from(s, 'hex')\<close>
  reads pairs of hexadecimal digits of either case and stops, keeping what it has decoded, at
  the first pair that is not one, or at a single trailing character. The decoder looks at
  the low byte of each code unit only.
\<close>

definition hexDigit :: "nat \<Rightarrow> code_unit" where
  "hexDigit n = (if n < 10 then of_nat (48 + n) else of_nat (87 + n))"

definition unhex :: "code_unit \<Rightarrow> nat option" where
  "unhex u =
     (let c = unat u mod 256
      in if 48 \<le> c \<and> c \<le> 57 then Some (c - 48)
         else if 97 \<le> c \<and> c \<le> 102 then Some (c - 87)
         else if 65 \<le> c \<and> c \<le> 70 then Some (c - 55)
         else None)"

fun toHex :: "byte list \<Rightarrow> jsstring" where
  "toHex [] = []"
| "toHex (b # bs) = hexDigit (unat b div 16) # hexDigit (unat b mod 16) # toHex bs"

fun fromHex :: "jsstring \<Rightarrow> byte list" where
  "fromHex (a # b # rest) =
     (case unhex a of
        None \<Rightarrow> []
      | Some x \<Rightarrow> (case unhex b of None \<Rightarrow> [] | Some y \<Rightarrow> of_nat (16 * x + y) # fromHex rest))"
| "fromHex _ = []"

text \<open>
  \<^verbatim>\<open>crypto.timingSafeEqual(a, b)\<close> throws a \<^verbatim>\<open>RangeError\<close> when the two buffers differ in
  length, and compares them otherwise.
\<close>

definition timingSafeEqual :: "byte list \<Rightarrow> byte list \<Rightarrow> error + bool" where
  "timingSafeEqual a b = (if length a \<noteq> length b then Inl RangeError else Inr (a = b))"

section \<open>The credential verifier\<close>

text \<open>
  \<^verbatim>\<open>
  function hashWithSaltSHA256(code, salt){
    return crypto.createHash('sha256').update(`${salt}${code}`).digest('hex');
  }
  function verifyPassword(row, code){
    const scryptHash = cleanValue(row.PasswordHash || row.ScryptHash);
    const salt = cleanValue(row.Salt);
    if(scryptHash && salt){
      const derived = crypto.scryptSync(code, salt, 64).toString('hex');
      return crypto.timingSafeEqual(Buffer.from(derived, 'hex'), Buffer.from(scryptHash, 'hex'));
    }
    if(salt && cleanValue(row.Code)){
      return hashWithSaltSHA256(code, salt) === cleanValue(row.Code);
    }
    if(ALLOW_LEGACY_SHA && cleanValue(row.Code)){
      const legacy = crypto.createHash('sha256').update(code).digest('hex');
      return legacy === cleanValue(row.Code);
    }
    return false;
  }
  \<close>
  \<open>ALLOW_LEGACY_SHA\<close> is read from the environment once; it is a parameter here.
\<close>

definition hashWithSaltSHA256 :: "runtime \<Rightarrow> jsstring \<Rightarrow> jsstring \<Rightarrow> jsstring" where
  "hashWithSaltSHA256 R code salt = toHex (sha256 R (salt @ code))"

definition storedScryptHash :: "runtime \<Rightarrow> row \<Rightarrow> jsstring" where
  "storedScryptHash R row = cleanValue R (jsOr (row ''PasswordHash'') (row ''ScryptHash''))"

definition verifyPassword :: "runtime \<Rightarrow> bool \<Rightarrow> row \<Rightarrow> jsstring \<Rightarrow> error + bool" where
  "verifyPassword R ALLOW_LEGACY_SHA row code =
     (let scryptHash = storedScryptHash R row;
          salt = cleanValue R (row ''Salt'')
      in if scryptHash \<noteq> [] \<and> salt \<noteq> [] then
           (let derived = toHex (scryptSync R code salt 64)
            in timingSafeEqual (fromHex derived) (fromHex scryptHash))
         else if salt \<noteq> [] \<and> cleanValue R (row ''Code'') \<noteq> [] then
           Inr (hashWithSaltSHA256 R code salt = cleanValue R (row ''Code''))
         else if ALLOW_LEGACY_SHA \<and> cleanValue R (row ''Code'') \<noteq> [] then
           Inr (toHex (sha256 R code) = cleanValue R (row ''Code''))
         else Inr False)"


section \<open>The data normalizer\<close>

subsection \<open>Instructor rows\<close>

text \<open>
  The callback that \<^verbatim>\<open>loadData\<close> maps over the instructor rows:
  \<^verbatim>\<open>
  row => {
    const employeeId = cleanValue(row.EmployeeID);
    const salt = cleanValue(row.Salt) || (employeeId ? `emp-${employeeId}` : 'default-salt');
    const passwordHash = cleanValue(row.PasswordHash || row.ScryptHash);
    const normalized = { ...row, Salt: salt };
    if(passwordHash){
      normalized.PasswordHash = passwordHash;
      return normalized;
    }
    const codeValue = cleanValue(row.Code);
    if(codeValue){
      normalized.PasswordHash = crypto.scryptSync(codeValue, salt, 64).toString('hex');
      delete normalized.Code;
    }
    return normalized;
  }
  \<close>
\<close>

definition normalizeRow :: "runtime \<Rightarrow> row \<Rightarrow> row" where
  "normalizeRow R row =
     (let employeeId = cleanValue R (row ''EmployeeID'');
          salt = (if cleanValue R (row ''Salt'') \<noteq> [] then cleanValue R (row ''Salt'')
                  else if employeeId \<noteq> [] then lit ''emp-'' @ employeeId
                  else lit ''default-salt'');
          passwordHash = cleanValue R (jsOr (row ''PasswordHash'') (row ''ScryptHash''));
          normalized = row(''Salt'' := JStr salt)
      in if passwordHash \<noteq> [] then normalized(''PasswordHash'' := JStr passwordHash)
         else (let codeValue = cleanValue R (row ''Code'')
               in if codeValue \<noteq> [] then
                    (normalized(''PasswordHash'' := JStr (toHex (scryptSync R codeValue salt 64))))
                      (''Code'' := JUndefined)
                  else normalized))"

subsection \<open>Program rules\<close>

text \<open>\<^verbatim>\<open>Number(v)\<close> and \<^verbatim>\<open>Number.isFinite(n)\<close>.\<close>

fun toNumber :: "runtime \<Rightarrow> cell \<Rightarrow> jsnum" where
  "toNumber R JUndefined = NaN"
| "toNumber R JNull = Fin 0"
| "toNumber R (JBool b) = (if b then Fin 1 else Fin 0)"
| "toNumber R (JNum n) = n"
| "toNumber R (JStr s) = stringToNumber R s"

fun isFinite :: "jsnum \<Rightarrow> bool" where
  "isFinite (Fin q) = True"
| "isFinite n = False"

type_synonym rules = "jsstring \<rightharpoonup> (jsnum \<rightharpoonup> ruleNote list)"

text \<open>
  The inner loop of \<^verbatim>\<open>loadData\<close>:
  \<^verbatim>\<open>
  const notes = [];
  for(let j = 2; j + 1 < row.length; j += 2){
    const type = cleanValue(row[j]);
    const text = cleanValue(row[j + 1]);
    if(type && text) notes.push({ type, text });
  }
  \<close>
\<close>

function notesFrom :: "runtime \<Rightarrow> cell list \<Rightarrow> nat \<Rightarrow> ruleNote list \<Rightarrow> ruleNote list" where
  "notesFrom R row j notes =
     (if j + 1 < length row then
        notesFrom R row (j + 2)
          (if cleanValue R (row ! j) \<noteq> [] \<and> cleanValue R (row ! (j + 1)) \<noteq> []
           then notes @ [Note (cleanValue R (row ! j)) (cleanValue R (row ! (j + 1)))]
           else notes)
      else notes)"
  by pat_completeness auto
termination
  by (relation "measure (\<lambda>(R, row, j, notes). length row - j)") auto

declare notesFrom.simps [simp del]

text \<open>
  The outer loop:
  \<^verbatim>\<open>
  const programRules = {};
  for(let i = 1; i < programRows.length; i++){
    const row = programRows[i] || [];
    const programKey = normalizeProgramName(row[0]);
    const meetingNum = Number(row[1]);
    if(!programKey || !Number.isFinite(meetingNum)) continue;
    if(!programRules[programKey]) programRules[programKey] = {};
    const notes = [];
    ...
    programRules[programKey][meetingNum] = notes;
  }
  \<close>
  \<open>programRules\<close> and the rows are ordinary objects, so a property that they do not have
  themselves is read from \<^verbatim>\<open>Object.prototype\<close>:
  \<^item> \<^verbatim>\<open>programRules['__proto__']\<close> is \<^verbatim>\<open>Object.prototype\<close> itself. The test
    \<^verbatim>\<open>!programRules[programKey]\<close> fails, no entry is created, and the assignment puts the notes
    on \<^verbatim>\<open>Object.prototype\<close> under the name \<^verbatim>\<open>String(meetingNum)\<close>, for every object of the
    process and until the process ends;
  \<^item> \<^verbatim>\<open>programRules['constructor']\<close> and the other names of \<open>objectPrototypeFunctions\<close> are
    functions: the notes become a property of the function, which nothing reads;
  \<^item> a key that names a property put on \<^verbatim>\<open>Object.prototype\<close> before finds that array, and
    the assignment writes into it: an element when the meeting number is an array index, a
    property that nothing reads otherwise;
  \<^item> \<^verbatim>\<open>row[0]\<close> and \<^verbatim>\<open>row[1]\<close> of a row too short to have them are the arrays that
    \<^verbatim>\<open>Object.prototype\<close> holds under \<^verbatim>\<open>'0'\<close> and \<^verbatim>\<open>'1'\<close>, if any, else \<^verbatim>\<open>undefined\<close>.
  The properties of \<^verbatim>\<open>Object.prototype\<close> are therefore state of the loop, passed in and
  returned. Their names are the results of \<^verbatim>\<open>String(meetingNum)\<close> on a finite number, such as
  \<^verbatim>\<open>'1'\<close> or \<^verbatim>\<open>'-2.5'\<close>: none of them is a name that another function of the server reads
  from a row, a request body or a header, which is why only this loop carries the state.
  A row of the \<^verbatim>\<open>arrays\<close> mode is an array of cells, or \<^verbatim>\<open>null\<close> (\<open>None\<close>).
\<close>

definition objectPrototypeFunctions :: "jsstring list" where
  "objectPrototypeFunctions = map lit
     [''constructor'', ''__defineGetter__'', ''__defineSetter__'',
      ''__lookupGetter__'', ''__lookupSetter__'', ''hasOwnProperty'', ''isPrototypeOf'',
      ''propertyIsEnumerable'', ''toLocaleString'', ''toString'', ''valueOf'']"

definition rowOrEmpty :: "cell list option \<Rightarrow> cell list" where
  "rowOrEmpty r = (case r of None \<Rightarrow> [] | Some cells \<Rightarrow> cells)"

text \<open>\<^verbatim>\<open>normalizeProgramName(row[0])\<close> and \<^verbatim>\<open>Number(row[1])\<close>\<close>

definition programKeyOf :: "runtime \<Rightarrow> prototypeProps \<Rightarrow> cell list \<Rightarrow> jsstring" where
  "programKeyOf R proto row =
     (if 0 < length row then normalizeProgramName R (row ! 0)
      else if proto (lit ''0'') = None then normalizeProgramName R JUndefined
      else toLocaleLowerCase R (trim (arrayToString R proto (lit ''0''))))"

definition meetingNumOf :: "runtime \<Rightarrow> prototypeProps \<Rightarrow> cell list \<Rightarrow> jsnum" where
  "meetingNumOf R proto row =
     (if 1 < length row then toNumber R (row ! 1)
      else if proto (lit ''1'') = None then toNumber R JUndefined
      else stringToNumber R (arrayToString R proto (lit ''1'')))"

text \<open>
  \<^verbatim>\<open>a[meetingNum] = notes\<close> on an array: an index is an integer from 0 to 4294967294, and
  writing beyond the end leaves holes.
\<close>

definition isArrayIndex :: "jsnum \<Rightarrow> bool" where
  "isArrayIndex n =
     (case n of Fin q \<Rightarrow> 0 \<le> q \<and> q < 4294967295 \<and> q = of_int \<lfloor>q\<rfloor> | _ \<Rightarrow> False)"

definition arrayPut :: "jsarray \<Rightarrow> jsnum \<Rightarrow> ruleNote list \<Rightarrow> jsarray" where
  "arrayPut a n notes =
     (case n of
        Fin q \<Rightarrow>
          if isArrayIndex n then
            (if nat \<lfloor>q\<rfloor> < length a then a[nat \<lfloor>q\<rfloor> := Some (NotesElem notes)]
             else a @ replicate (nat \<lfloor>q\<rfloor> - length a) None @ [Some (NotesElem notes)])
          else a
      | _ \<Rightarrow> a)"

text \<open>One pass of the loop body, on the table and the properties of \<^verbatim>\<open>Object.prototype\<close>.\<close>

definition ruleRow ::
  "runtime \<Rightarrow> rules \<times> prototypeProps \<Rightarrow> cell list option \<Rightarrow> rules \<times> prototypeProps" where
  "ruleRow R state r =
     (let programRules = fst state;
          proto = snd state;
          row = rowOrEmpty r;
          programKey = programKeyOf R proto row;
          meetingNum = meetingNumOf R proto row
      in if programKey = [] \<or> \<not> isFinite meetingNum then state
         else (case programRules programKey of
                 Some inner \<Rightarrow>
                   (programRules(programKey \<mapsto> inner(meetingNum \<mapsto> notesFrom R row 2 [])), proto)
               | None \<Rightarrow>
                   if programKey = lit ''__proto__'' then
                     (programRules,
                      proto(numberToString R meetingNum \<mapsto>
                              map (\<lambda>n. Some (NoteElem n)) (notesFrom R row 2 [])))
                   else (case proto programKey of
                           Some a \<Rightarrow>
                             (programRules,
                              proto(programKey \<mapsto> arrayPut a meetingNum (notesFrom R row 2 [])))
                         | None \<Rightarrow>
                             if programKey \<in> set objectPrototypeFunctions then state
                             else (programRules(programKey \<mapsto>
                                                  Map.empty(meetingNum \<mapsto> notesFrom R row 2 [])),
                                   proto))))"

function rulesFrom ::
  "runtime \<Rightarrow> cell list option list \<Rightarrow> nat \<Rightarrow> rules \<times> prototypeProps \<Rightarrow> rules \<times> prototypeProps" where
  "rulesFrom R programRows i state =
     (if i < length programRows then rulesFrom R programRows (i + 1) (ruleRow R state (programRows ! i))
      else state)"
  by pat_completeness auto
termination
  by (relation "measure (\<lambda>(R, programRows, i, state). length programRows - i)") auto

declare rulesFrom.simps [simp del]

subsection \<open>Global messages\<close>

text \<open>
  \<^verbatim>\<open>
  const globalMessages = globalRows.filter(r => cleanValue(r.Message)).map(r => ({
    message: cleanValue(r.Message),
    type: cleanValue(r.Type) || 'Info'
  }));
  \<close>
\<close>

datatype message = Message jsstring jsstring

definition globalMessagesOf :: "runtime \<Rightarrow> row list \<Rightarrow> message list" where
  "globalMessagesOf R globalRows =
     map (\<lambda>r. Message (cleanValue R (r ''Message''))
                 (if cleanValue R (r ''Type'') \<noteq> [] then cleanValue R (r ''Type'') else lit ''Info''))
       (filter (\<lambda>r. cleanValue R (r ''Message'') \<noteq> []) globalRows)"

subsection \<open>The snapshot and its reload\<close>

record dataStore =
  instructors :: "row list"
  programRules :: rules
  globalMessages :: "message list"

definition initialStore :: dataStore where
  "initialStore = \<lparr>instructors = [], programRules = Map.empty, globalMessages = []\<rparr>"

text \<open>
  \<^verbatim>\<open>parseXlsx\<close> runs an external parser; what its three calls return, or throw, is the input
  of a reload.
\<close>

record sources =
  instructorSheet :: "error + row list"
  programRulesSheet :: "error + cell list option list"
  globalMessagesSheet :: "error + row list"

text \<open>
  \<^verbatim>\<open>
  async function loadData(){
    const instructors = parseXlsx(DATA_FILES.instructor, 'objects').map(row => {...});
    const programRows = parseXlsx(DATA_FILES.programRules, 'arrays');
    const globalRows = parseXlsx(DATA_FILES.globalMessages, 'objects');
    const programRules = {}; for(...){...}
    const globalMessages = ...;
    dataStore = { instructors, programRules, globalMessages };
  }
  \<close>
  The properties of \<^verbatim>\<open>Object.prototype\<close> outlive the call, so they are passed in and
  returned beside the store; the first component says how the promise settles (\<open>Inl\<close>:
  rejected).
\<close>

definition loadData ::
  "runtime \<Rightarrow> sources \<Rightarrow> dataStore \<Rightarrow> prototypeProps
     \<Rightarrow> (error + unit) \<times> dataStore \<times> prototypeProps" where
  "loadData R src store proto =
     (case instructorSheet src of
        Inl e \<Rightarrow> (Inl e, store, proto)
      | Inr rows \<Rightarrow>
          (case programRulesSheet src of
             Inl e \<Rightarrow> (Inl e, store, proto)
           | Inr programRows \<Rightarrow>
               (case globalMessagesSheet src of
                  Inl e \<Rightarrow> (Inl e, store, proto)
                | Inr globalRows \<Rightarrow>
                    (Inr (),
                     \<lparr>instructors = map (normalizeRow R) rows,
                      programRules = fst (rulesFrom R programRows 1 (Map.empty, proto)),
                      globalMessages = globalMessagesOf R globalRows\<rparr>,
                     snd (rulesFrom R programRows 1 (Map.empty, proto))))))"

text \<open>
  The periodic reload of \<^verbatim>\<open>bootstrap\<close>, \<^verbatim>\<open>setInterval(() => loadData().catch(() => {}), ...)\<close>,
  drops the rejection and keeps the store.
\<close>

definition periodicReload ::
  "runtime \<Rightarrow> sources \<Rightarrow> dataStore \<Rightarrow> prototypeProps \<Rightarrow> dataStore \<times> prototypeProps" where
  "periodicReload R src store proto = snd (loadData R src store proto)"

section \<open>The session store\<close>

text \<open>
  \<^verbatim>\<open>
  const SESSION_TTL_MS = 1000 * 60 * 60 * 8;
  const sessions = new Map();
  function createSession(employeeId, employeeName){
    const token = crypto.randomBytes(32).toString('hex');
    sessions.set(token, { employeeId, employeeName, expiresAt: Date.now() + SESSION_TTL_MS });
    return token;
  }
  function getSession(req){
    const auth = req.headers.authorization || '';
    const token = auth.startsWith('Bearer ') ? auth.slice(7) : '';
    const session = sessions.get(token);
    if(!session) return null;
    if(session.expiresAt < Date.now()){ sessions.delete(token); return null; }
    return { token, ...session };
  }
  \<close>
  Times are integer milliseconds. The clock \<^verbatim>\<open>Date.now()\<close> and the bytes that
  \<^verbatim>\<open>crypto.randomBytes(32)\<close> returns are arguments; the map is passed in and returned.
\<close>

record session =
  employeeId :: jsstring
  employeeName :: jsstring
  expiresAt :: int

type_synonym sessions = "jsstring \<rightharpoonup> session"

definition SESSION_TTL_MS :: int where
  "SESSION_TTL_MS = 1000 * 60 * 60 * 8"

definition createSession ::
  "sessions \<Rightarrow> int \<Rightarrow> byte list \<Rightarrow> jsstring \<Rightarrow> jsstring \<Rightarrow> jsstring \<times> sessions" where
  "createSession ss now randomBytes eid ename =
     (let token = toHex randomBytes
      in (token, ss(token \<mapsto> \<lparr>employeeId = eid, employeeName = ename,
                                expiresAt = now + SESSION_TTL_MS\<rparr>)))"

definition bearerToken :: "jsstring option \<Rightarrow> jsstring" where
  "bearerToken authorization =
     (let auth = (case authorization of None \<Rightarrow> [] | Some a \<Rightarrow> a)
      in if take 7 auth = lit ''Bearer '' then drop 7 auth else [])"

definition getSession ::
  "sessions \<Rightarrow> int \<Rightarrow> jsstring option \<Rightarrow> (jsstring \<times> session) option \<times> sessions" where
  "getSession ss now authorization =
     (let token = bearerToken authorization
      in case ss token of
           None \<Rightarrow> (None, ss)
         | Some s \<Rightarrow> if expiresAt s < now then (None, ss(token := None))
                     else (Some (token, s), ss))"

section \<open>Activity extraction\<close>

text \<open>
  \<^verbatim>\<open>
  function extractActivities(row){
    const activities = [];
    for(let i = 1; i <= 16; i++){
      const dateField = row[`Date${i}`] || (i === 1 ? row.Date : undefined);
      if(!hasValue(dateField)) continue;
      const cancelField = row[`Cancel${i}`] || (i === 1 ? row.Cancel : undefined);
      if(hasValue(cancelField)) continue;
      const program = cleanValue(row[`Program${i}`] || (i === 1 ? row.Program : ''));
      activities.push({
        date: new Date(dateField).toISOString(),
        program,
        programKey: normalizeProgramName(program),
        startTime: row[`StartTime${i}`] || (i === 1 ? row.StartTime : ''),
        endTime: row[`EndTime${i}`] || (i === 1 ? row.EndTime : ''),
        manager: cleanValue(row[`Manager${i}`] || (i === 1 ? row.Manager : '')),
        school: cleanValue(row[`School${i}`] || (i === 1 ? row.School : '')),
        className: cleanValue(row[`Class${i}`] || (i === 1 ? row.Class : '')),
        authority: cleanValue(row[`Authority${i}`] || (i === 1 ? row.Authority : '')),
        meetingNumber: i
      });
    }
    return activities;
  }
  \<close>
\<close>

record activity =
  date :: jsstring
  program :: jsstring
  programKey :: jsstring
  startTime :: cell
  endTime :: cell
  manager :: jsstring
  school :: jsstring
  className :: jsstring
  authority :: jsstring
  meetingNumber :: nat

text \<open>The decimal digits of \<^verbatim>\<open>${i}\<close>.\<close>

definition digitChar :: "nat \<Rightarrow> char" where
  "digitChar d = ''0123456789'' ! d"

fun decimal :: "nat \<Rightarrow> string" where
  "decimal n = (if n < 10 then [digitChar n] else decimal (n div 10) @ [digitChar (n mod 10)])"

declare decimal.simps [simp del]

text \<open>\<^verbatim>\<open>row[`Name${i}`] || (i === 1 ? row.Name : dflt)\<close>\<close>

definition groupField :: "row \<Rightarrow> string \<Rightarrow> nat \<Rightarrow> cell \<Rightarrow> cell" where
  "groupField row name i dflt = jsOr (row (name @ decimal i)) (if i = 1 then row name else dflt)"

definition dateField :: "row \<Rightarrow> nat \<Rightarrow> cell" where
  "dateField row i = groupField row ''Date'' i JUndefined"

definition cancelField :: "row \<Rightarrow> nat \<Rightarrow> cell" where
  "cancelField row i = groupField row ''Cancel'' i JUndefined"

definition activityOf :: "runtime \<Rightarrow> row \<Rightarrow> nat \<Rightarrow> jsstring \<Rightarrow> activity" where
  "activityOf R row i stamp =
     \<lparr>date = stamp,
      program = cleanValue R (groupField row ''Program'' i (JStr [])),
      programKey = normalizeProgramName R (JStr (cleanValue R (groupField row ''Program'' i (JStr [])))),
      startTime = groupField row ''StartTime'' i (JStr []),
      endTime = groupField row ''EndTime'' i (JStr []),
      manager = cleanValue R (groupField row ''Manager'' i (JStr [])),
      school = cleanValue R (groupField row ''School'' i (JStr [])),
      className = cleanValue R (groupField row ''Class'' i (JStr [])),
      authority = cleanValue R (groupField row ''Authority'' i (JStr [])),
      meetingNumber = i\<rparr>"

function extractFrom :: "runtime \<Rightarrow> row \<Rightarrow> nat \<Rightarrow> activity list \<Rightarrow> error + activity list" where
  "extractFrom R row i activities =
     (if i \<le> 16 then
        (if \<not> hasValue R (dateField row i) then extractFrom R row (i + 1) activities
         else if hasValue R (cancelField row i) then extractFrom R row (i + 1) activities
         else (case dateToISOString R (dateField row i) of
                 None \<Rightarrow> Inl RangeError
               | Some stamp \<Rightarrow> extractFrom R row (i + 1) (activities @ [activityOf R row i stamp])))
      else Inr activities)"
  by pat_completeness auto
termination
  by (relation "measure (\<lambda>(R, row, i, activities). 17 - i)") auto

declare extractFrom.simps [simp del]

definition extractActivities :: "runtime \<Rightarrow> row \<Rightarrow> error + activity list" where
  "extractActivities R row = extractFrom R row 1 []"

section \<open>The request handler\<close>

text \<open>
  A request: its method, its target, its \<^verbatim>\<open>authorization\<close> header if any, and how
  \<^verbatim>\<open>parseJsonBody(req)\<close> settles (\<open>Inl\<close>: \<^verbatim>\<open>JSON.parse\<close> threw; an empty body gives \<^verbatim>\<open>{}\<close>).
\<close>

record request =
  reqMethod :: string
  url :: string
  authorization :: "jsstring option"
  body :: "error + json"

datatype payload =
  ErrorBody string
| ServerError error
| LoginOk jsstring jsstring
| Schedule jsstring "activity list" rules "message list"

datatype response =
  SendJson nat payload
| SendText nat string
| ServeFile string
| NoContent nat

fun status :: "response \<Rightarrow> nat option" where
  "status (SendJson n p) = Some n"
| "status (SendText n t) = Some n"
| "status (NoContent n) = Some n"
| "status (ServeFile f) = None"

record serverState =
  store :: dataStore
  sessionMap :: sessions

text \<open>
  Reading a property of the parsed body: a \<^verbatim>\<open>TypeError\<close> on \<^verbatim>\<open>null\<close>, the own property of
  an object, \<^verbatim>\<open>undefined\<close> on anything else (no built-in prototype has a property
  \<^verbatim>\<open>employeeId\<close> or \<^verbatim>\<open>code\<close>).
\<close>

fun getProp :: "json \<Rightarrow> string \<Rightarrow> error + json" where
  "getProp (JScalar JNull) k = Inl TypeError"
| "getProp (JScalar JUndefined) k = Inl TypeError"
| "getProp (JObj props) k =
     Inr (case map_of props k of None \<Rightarrow> JScalar JUndefined | Some v \<Rightarrow> v)"
| "getProp v k = Inr (JScalar JUndefined)"

text \<open>
  \<^verbatim>\<open>String(v)\<close> of a parsed JSON value. An array is joined with commas, \<^verbatim>\<open>null\<close> elements
  giving the empty string; a plain object gives \<^verbatim>\<open>[object Object]\<close>, unless it has an own
  property \<^verbatim>\<open>toString\<close>, which no JSON value makes callable: the conversion then throws a
  \<^verbatim>\<open>TypeError\<close>.
\<close>

fun joinParts :: "(error + jsstring) list \<Rightarrow> error + jsstring" where
  "joinParts [] = Inr []"
| "joinParts [p] = p"
| "joinParts (p # ps) =
     (case p of
        Inl e \<Rightarrow> Inl e
      | Inr s \<Rightarrow> (case joinParts ps of Inl e \<Rightarrow> Inl e | Inr t \<Rightarrow> Inr (s @ lit '','' @ t)))"

fun jsonToString :: "runtime \<Rightarrow> json \<Rightarrow> error + jsstring" where
  "jsonToString R (JScalar c) = Inr (toStr R c)"
| "jsonToString R (JObj props) =
     (if ''toString'' \<in> set (map fst props) then Inl TypeError else Inr (lit ''[object Object]''))"
| "jsonToString R (JArr xs) =
     joinParts (map (\<lambda>x. if x = JScalar JUndefined \<or> x = JScalar JNull then Inr []
                          else jsonToString R x) xs)"

definition cleanValueJ :: "runtime \<Rightarrow> json \<Rightarrow> error + jsstring" where
  "cleanValueJ R v =
     (if v = JScalar JUndefined \<or> v = JScalar JNull then Inr []
      else (case jsonToString R v of Inl e \<Rightarrow> Inl e | Inr s \<Rightarrow> Inr (trim s)))"

definition cleanField :: "runtime \<Rightarrow> json \<Rightarrow> string \<Rightarrow> error + jsstring" where
  "cleanField R b k = (case getProp b k of Inl e \<Rightarrow> Inl e | Inr v \<Rightarrow> cleanValueJ R v)"

text \<open>\<^verbatim>\<open>dataStore.instructors.find(item => cleanValue(item.EmployeeID) === id)\<close>\<close>

definition findInstructor :: "runtime \<Rightarrow> dataStore \<Rightarrow> jsstring \<Rightarrow> row option" where
  "findInstructor R ds eid = find (\<lambda>item. cleanValue R (item ''EmployeeID'') = eid) (instructors ds)"

text \<open>
  \<^verbatim>\<open>
  if(req.method === 'POST' && req.url === '/api/login'){
    const body = await parseJsonBody(req);
    const employeeId = cleanValue(body.employeeId);
    const code = cleanValue(body.code);
    if(!employeeId || !code) return sendJson(res, 400, { error: 'Missing credentials' });
    const row = dataStore.instructors.find(item => cleanValue(item.EmployeeID) === employeeId);
    if(!row || !verifyPassword(row, code)) return sendJson(res, 401, { error: 'Invalid credentials' });
    const token = createSession(employeeId, cleanValue(row.Employee));
    return sendJson(res, 200, { token, employeeName: cleanValue(row.Employee) });
  }
  \<close>
\<close>

definition login ::
  "runtime \<Rightarrow> bool \<Rightarrow> serverState \<Rightarrow> int \<Rightarrow> byte list \<Rightarrow> error + json
     \<Rightarrow> (error + response) \<times> serverState" where
  "login R ALLOW_LEGACY_SHA st now randomBytes parsed =
     (case parsed of
        Inl e \<Rightarrow> (Inl e, st)
      | Inr b \<Rightarrow>
     (case cleanField R b ''employeeId'' of
        Inl e \<Rightarrow> (Inl e, st)
      | Inr eid \<Rightarrow>
     (case cleanField R b ''code'' of
        Inl e \<Rightarrow> (Inl e, st)
      | Inr code \<Rightarrow>
          if eid = [] \<or> code = [] then (Inr (SendJson 400 (ErrorBody ''Missing credentials'')), st)
          else (case findInstructor R (store st) eid of
                  None \<Rightarrow> (Inr (SendJson 401 (ErrorBody ''Invalid credentials'')), st)
                | Some row \<Rightarrow>
                    (case verifyPassword R ALLOW_LEGACY_SHA row code of
                       Inl e \<Rightarrow> (Inl e, st)
                     | Inr ok \<Rightarrow>
                         if \<not> ok then (Inr (SendJson 401 (ErrorBody ''Invalid credentials'')), st)
                         else (let (token, ss) = createSession (sessionMap st) now randomBytes eid
                                                   (cleanValue R (row ''Employee''))
                               in (Inr (SendJson 200 (LoginOk token (cleanValue R (row ''Employee'')))),
                                   st\<lparr>sessionMap := ss\<rparr>)))))))"

text \<open>
  \<^verbatim>\<open>
  if(req.method === 'GET' && req.url === '/api/me/schedule'){
    const session = getSession(req);
    if(!session) return sendJson(res, 401, { error: 'Unauthorized' });
    const row = dataStore.instructors.find(item => cleanValue(item.EmployeeID) === session.employeeId);
    if(!row) return sendJson(res, 404, { error: 'Employee not found' });
    return sendJson(res, 200, {
      employeeName: cleanValue(row.Employee),
      activities: extractActivities(row),
      programRules: dataStore.programRules,
      globalMessages: dataStore.globalMessages
    });
  }
  \<close>
\<close>

definition schedule ::
  "runtime \<Rightarrow> serverState \<Rightarrow> int \<Rightarrow> jsstring option \<Rightarrow> (error + response) \<times> serverState" where
  "schedule R st now auth =
     (case getSession (sessionMap st) now auth of
        (None, ss) \<Rightarrow> (Inr (SendJson 401 (ErrorBody ''Unauthorized'')), st\<lparr>sessionMap := ss\<rparr>)
      | (Some (token, s), ss) \<Rightarrow>
          (case findInstructor R (store st) (employeeId s) of
             None \<Rightarrow> (Inr (SendJson 404 (ErrorBody ''Employee not found'')), st\<lparr>sessionMap := ss\<rparr>)
           | Some row \<Rightarrow>
               (case extractActivities R row of
                  Inl e \<Rightarrow> (Inl e, st\<lparr>sessionMap := ss\<rparr>)
                | Inr activities \<Rightarrow>
                    (Inr (SendJson 200 (Schedule (cleanValue R (row ''Employee'')) activities
                            (programRules (store st)) (globalMessages (store st)))),
                     st\<lparr>sessionMap := ss\<rparr>))))"

text \<open>
  \<^verbatim>\<open>
  if(req.method === 'POST' && req.url === '/api/logout'){
    const session = getSession(req);
    if(!session) return sendJson(res, 401, { error: 'Unauthorized' });
    sessions.delete(session.token);
    res.writeHead(204);
    return res.end();
  }
  \<close>
\<close>

definition logout ::
  "serverState \<Rightarrow> int \<Rightarrow> jsstring option \<Rightarrow> (error + response) \<times> serverState" where
  "logout st now auth =
     (case getSession (sessionMap st) now auth of
        (None, ss) \<Rightarrow> (Inr (SendJson 401 (ErrorBody ''Unauthorized'')), st\<lparr>sessionMap := ss\<rparr>)
      | (Some (token, s), ss) \<Rightarrow> (Inr (NoContent 204), st\<lparr>sessionMap := ss(token := None)\<rparr>))"

text \<open>
  The static routes. A request target starts with \<^verbatim>\<open>/\<close>, so \<^verbatim>\<open>routes[req.url]\<close> finds own
  properties only. Whether the file exists is the file system's matter: \<open>ServeFile\<close> stands
  for the call of \<^verbatim>\<open>serveFile\<close>.
\<close>

definition routes :: "(string \<times> string) list" where
  "routes = [(''/'', ''index.html''), (''/sw.js'', ''sw.js''), (''/manifest.json'', ''manifest.json''),
     (''/hash-generator.html'', ''hash-generator.html''), (''/logo.png'', ''logo.png''),
     (''/icon-192.png'', ''icon-192.png''), (''/icon-512.png'', ''icon-512.png'')]"

definition dispatch ::
  "runtime \<Rightarrow> bool \<Rightarrow> serverState \<Rightarrow> int \<Rightarrow> byte list \<Rightarrow> request
     \<Rightarrow> (error + response) \<times> serverState" where
  "dispatch R ALLOW_LEGACY_SHA st now randomBytes req =
     (if url req \<in> set [''/InstructorData.xlsx'', ''/ProgramRules.xlsx'', ''/GlobalMessages.xlsx'']
      then (Inr (SendText 403 ''Direct access to Excel files is forbidden.''), st)
      else if reqMethod req = ''POST'' \<and> url req = ''/api/login''
      then login R ALLOW_LEGACY_SHA st now randomBytes (body req)
      else if reqMethod req = ''GET'' \<and> url req = ''/api/me/schedule''
      then schedule R st now (authorization req)
      else if reqMethod req = ''POST'' \<and> url req = ''/api/logout''
      then logout st now (authorization req)
      else (case map_of routes (url req) of
              Some file \<Rightarrow> (Inr (ServeFile file), st)
            | None \<Rightarrow> (Inr (SendText 404 ''Not found''), st)))"

text \<open>
  \<^verbatim>\<open>
  const server = http.createServer(async (req, res) => {
    try { ... } catch (error){
      return sendJson(res, 500, { error: 'Server error', detail: error.message });
    }
  });
  \<close>
\<close>

definition server ::
  "runtime \<Rightarrow> bool \<Rightarrow> serverState \<Rightarrow> int \<Rightarrow> byte list \<Rightarrow> request \<Rightarrow> response \<times> serverState" where
  "server R ALLOW_LEGACY_SHA st now randomBytes req =
     (case dispatch R ALLOW_LEGACY_SHA st now randomBytes req of
        (Inl e, st') \<Rightarrow> (SendJson 500 (ServerError e), st')
      | (Inr r, st') \<Rightarrow> (r, st'))"

text \<open>The salt that the instructor callback of \<^verbatim>\<open>loadData\<close> derives for a row.\<close>

definition saltOf :: "runtime \<Rightarrow> row \<Rightarrow> jsstring" where
  "saltOf R row =
     (if cleanValue R (row ''Salt'') \<noteq> [] then cleanValue R (row ''Salt'')
      else if cleanValue R (row ''EmployeeID'') \<noteq> [] then lit ''emp-'' @ cleanValue R (row ''EmployeeID'')
      else lit ''default-salt'')"

text \<open>
  The notes of a row as the specification words them: the columns after the first two, in
  pairs (type, text), a last single column left over; a pair gives a note when both are
  non-empty after trimming.
\<close>

fun pairsOf :: "'a list \<Rightarrow> ('a \<times> 'a) list" where
  "pairsOf (a # b # rest) = (a, b) # pairsOf rest"
| "pairsOf rest = []"

definition notesOfPairs :: "runtime \<Rightarrow> cell list \<Rightarrow> ruleNote list" where
  "notesOfPairs R columns =
     map (\<lambda>(a, b). Note (cleanValue R a) (cleanValue R b))
       (filter (\<lambda>(a, b). cleanValue R a \<noteq> [] \<and> cleanValue R b \<noteq> []) (pairsOf columns))"

text \<open>
  Field-group \<open>i\<close> is emitted when it passes the two tests of the loop body of
  \<^verbatim>\<open>extractActivities\<close>: \<open>hasValue\<close> holds of its date field and not of its cancellation
  field, each the cell that \<^verbatim>\<open>row[`Name${i}`] || fallback\<close> selects (the operator passes over
  the falsy cells \<^verbatim>\<open>''\<close>, \<^verbatim>\<open>0\<close> and \<^verbatim>\<open>false\<close>). \<open>extractOver\<close> is the same loop over a list of
  indices, for the inductions on \<open>extractFrom\<close>.
\<close>

definition groupEmitted :: "runtime \<Rightarrow> row \<Rightarrow> nat \<Rightarrow> bool" where
  "groupEmitted R row i = (hasValue R (dateField row i) \<and> \<not> hasValue R (cancelField row i))"

fun extractOver :: "runtime \<Rightarrow> row \<Rightarrow> nat list \<Rightarrow> activity list \<Rightarrow> error + activity list" where
  "extractOver R row [] activities = Inr activities"
| "extractOver R row (i # rest) activities =
     (if \<not> groupEmitted R row i then extractOver R row rest activities
      else (case dateToISOString R (dateField row i) of
              None \<Rightarrow> Inl RangeError
            | Some stamp \<Rightarrow> extractOver R row rest (activities @ [activityOf R row i stamp])))"

section \<open>Example data\<close>

text \<open>
  An instance of the runtime, to run the model on concrete inputs. It agrees with Node on
  the inputs the examples below use: lower-casing of ASCII letters, \<^verbatim>\<open>Number\<close> of the empty
  string and of a string of decimal digits, \<^verbatim>\<open>String\<close> of a small natural number,
  \<^verbatim>\<open>new Date(s).toISOString()\<close> on the two strings used, which keeps the full ISO timestamp and
  fails on \<^verbatim>\<open>'tbd'\<close>, and \<^verbatim>\<open>String\<close> of an array without holes, \<^verbatim>\<open>[object Object]\<close> for each
  note, joined by commas. Its \<open>scryptSync\<close> and \<open>sha256\<close> are stand-ins for the real
  derivations. Where an example stores a hash, the hash is the stand-in's derivation of the
  code, as the real record holds the real one; the lemmas beside the example state the same
  for every runtime.
\<close>

definition demoLower :: "code_unit \<Rightarrow> code_unit" where
  "demoLower u = (if 65 \<le> u \<and> u \<le> 90 then u + 32 else u)"

definition demoNumber :: "jsstring \<Rightarrow> jsnum" where
  "demoNumber s =
     (if list_all (\<lambda>u. 48 \<le> u \<and> u \<le> 57) s
      then Fin (of_nat (foldl (\<lambda>a u. 10 * a + (unat u - 48)) 0 s))
      else NaN)"

definition demoJoin :: "jsarray \<Rightarrow> jsstring" where
  "demoJoin a =
     concat (map (\<lambda>(k, e). (if k = 0 then [] else lit '','')
                    @ (case e of
                         None \<Rightarrow> []
                       | Some (NoteElem n) \<Rightarrow> lit ''[object Object]''
                       | Some (NotesElem ns) \<Rightarrow>
                           concat (map (\<lambda>(j, n). (if j = 0 then [] else lit '','')
                                           @ lit ''[object Object]'') (enumerate 0 ns))))
                 (enumerate 0 a))"

definition demoRuntime :: runtime where
  "demoRuntime =
     \<lparr>scryptSync = (\<lambda>password salt keylen.
        map (\<lambda>k. of_nat (k + length password + 7 * length salt)) [0..<keylen]),
      sha256 = (\<lambda>s. replicate 32 (of_nat (length s))),
      numberToString = (\<lambda>n. case n of
          NaN \<Rightarrow> lit ''NaN'' | PosInfinity \<Rightarrow> lit ''Infinity'' | NegInfinity \<Rightarrow> lit ''-Infinity''
        | Fin q \<Rightarrow> lit (decimal (nat \<lfloor>q\<rfloor>))),
      stringToNumber = demoNumber,
      toLocaleLowerCase = map demoLower,
      dateToISOString = (\<lambda>v. case v of
          JStr s \<Rightarrow> if s = lit ''2026-01-05T08:00:00.000Z'' then Some s else None
        | _ \<Rightarrow> None),
      arrayToString = (\<lambda>props k. case props k of None \<Rightarrow> [] | Some a \<Rightarrow> demoJoin a)\<rparr>"

definition emptyRow :: row where
  "emptyRow = (\<lambda>k. JUndefined)"

definition storedRow :: "byte list \<Rightarrow> row" where
  "storedRow h = emptyRow(''EmployeeID'' := JStr (lit ''1001''), ''Employee'' := JStr (lit ''Dana''),
     ''Salt'' := JStr (lit ''s1''), ''PasswordHash'' := JStr (toHex h))"

definition headerRow :: "cell list option" where
  "headerRow = Some [JStr (lit ''Program''), JStr (lit ''Meeting''), JStr (lit ''Type''), JStr (lit ''Text'')]"

definition malformedRow :: "cell list option" where
  "malformedRow = Some [JStr (lit ''Robotics''), JStr (lit ''abc''), JStr (lit ''Bring''), JStr (lit ''Laptop'')]"

definition goodRow :: "cell list option" where
  "goodRow = Some [JStr (lit '' Robotics''), JNum (Fin 2), JStr (lit ''Bring''), JStr (lit ''Laptop ''),
     JStr (lit '' ''), JStr (lit ''dropped''), JStr (lit ''Room''), JStr (lit ''12''), JStr (lit ''single'')]"

definition loadedStore :: dataStore where
  "loadedStore = \<lparr>instructors = [emptyRow(''EmployeeID'' := JStr (lit ''1001''))],
     programRules = Map.empty, globalMessages = []\<rparr>"

definition weekRow :: row where
  "weekRow = emptyRow(''EmployeeID'' := JStr (lit ''1001''), ''Employee'' := JStr (lit ''Dana''),
     ''Date'' := JStr (lit ''2026-01-05T08:00:00.000Z''), ''Program'' := JStr (lit ''Robotics''),
     ''Date2'' := JStr (lit ''2026-01-05T08:00:00.000Z''), ''Cancel2'' := JStr (lit ''yes''),
     ''Date3'' := JStr (lit ''2026-01-05T08:00:00.000Z''), ''Cancel4'' := JStr (lit ''yes''))"

definition tbdRow :: row where
  "tbdRow = emptyRow(''EmployeeID'' := JStr (lit ''1001''), ''Employee'' := JStr (lit ''Dana''),
     ''Date1'' := JStr (lit ''tbd''),
     ''Date2'' := JStr (lit ''2026-01-05T08:00:00.000Z''))"


definition dana :: row where
  "dana = storedRow (scryptSync demoRuntime (lit ''abc123'') (lit ''s1'') 64)"

definition loginState :: serverState where
  "loginState = \<lparr>store = \<lparr>instructors = [dana], programRules = Map.empty, globalMessages = []\<rparr>,
     sessionMap = Map.empty\<rparr>"

definition loginRequest :: "error + json \<Rightarrow> request" where
  "loginRequest parsed =
     \<lparr>reqMethod = ''POST'', url = ''/api/login'', authorization = None, body = parsed\<rparr>"

definition credentials :: "string \<Rightarrow> string \<Rightarrow> error + json" where
  "credentials eid code =
     Inr (JObj [(''employeeId'', JScalar (JStr (lit eid))), (''code'', JScalar (JStr (lit code)))])"

definition duplicateSheets :: sources where
  "duplicateSheets = \<lparr>instructorSheet = Inr [storedRow [0xAB], storedRow [0xCD]],
     programRulesSheet = Inr [], globalMessagesSheet = Inr []\<rparr>"


definition protoRow :: "cell list option" where
  "protoRow = Some [JStr (lit ''__proto__''), JNum (Fin 1)]"

definition shortRow :: "cell list option" where
  "shortRow = Some [JStr (lit ''x'')]"

definition zeroCancelRow :: row where
  "zeroCancelRow = emptyRow(''EmployeeID'' := JStr (lit ''1001''), ''Employee'' := JStr (lit ''Dana''),
     ''Date2'' := JStr (lit ''2026-01-05T08:00:00.000Z''), ''Cancel2'' := JNum (Fin 0))"

definition blankDateRow :: row where
  "blankDateRow = emptyRow(''EmployeeID'' := JStr (lit ''1001''), ''Employee'' := JStr (lit ''Dana''),
     ''Date1'' := JStr (lit '' ''), ''Date'' := JStr (lit ''2026-01-05T08:00:00.000Z''))"


section \<open>Properties\<close>

subsection \<open>Trimming and the hex encoding\<close>

lemma trim_Nil: "trim [] = []"
  by (simp add: trim_def)

lemma trim_fixed:
  assumes "s \<noteq> []" "\<not> isWhiteSpace (hd s)" "\<not> isWhiteSpace (last s)"
  shows "trim s = s"
proof -
  from assms have a: "dropWhile isWhiteSpace s = s"
    by (cases s) auto
  from assms have "dropWhile isWhiteSpace (rev s) = rev s"
    by (cases "rev s") (auto simp: last_rev[symmetric] hd_rev)
  with a show ?thesis by (simp add: trim_def)
qed

lemma trim_ends:
  assumes "trim s \<noteq> []"
  shows "\<not> isWhiteSpace (hd (trim s)) \<and> \<not> isWhiteSpace (last (trim s))"
proof -
  let ?a = "dropWhile isWhiteSpace s"
  let ?b = "dropWhile isWhiteSpace (rev ?a)"
  have t: "trim s = rev ?b" by (simp add: trim_def)
  with assms have bne: "?b \<noteq> []" by simp
  then have hb: "\<not> isWhiteSpace (hd ?b)" by (rule hd_dropWhile)
  then have l: "\<not> isWhiteSpace (last (trim s))" using bne by (simp add: t last_rev)
  have ane: "?a \<noteq> []"
  proof
    assume e: "?a = []"
    have "?b = []" by (simp only: e rev.simps dropWhile.simps)
    with bne show False by simp
  qed
  then have ha: "\<not> isWhiteSpace (hd ?a)" by (rule hd_dropWhile)
  have "rev ?a = takeWhile isWhiteSpace (rev ?a) @ ?b" by simp
  then have "?a = rev ?b @ rev (takeWhile isWhiteSpace (rev ?a))"
    by (metis rev_append rev_rev_ident)
  then have "hd ?a = hd (rev ?b)" using bne by (metis hd_append2 rev_is_Nil_conv)
  with ha have "\<not> isWhiteSpace (hd (trim s))" by (simp add: t)
  with l show ?thesis by simp
qed

lemma trim_idem: "trim (trim s) = trim s"
proof (cases "trim s = []")
  case True
  then show ?thesis by (simp add: trim_Nil)
next
  case False
  then show ?thesis using trim_ends[OF False] by (intro trim_fixed) auto
qed

lemma cleanValue_trimmed: "trim (cleanValue R v) = cleanValue R v"
  by (simp add: cleanValue_def trim_Nil trim_idem)

lemma cleanValue_ends:
  "cleanValue R v \<noteq> [] \<Longrightarrow> \<not> isWhiteSpace (hd (cleanValue R v)) \<and> \<not> isWhiteSpace (last (cleanValue R v))"
  by (auto simp: cleanValue_def dest: trim_ends split: if_splits)

lemma cleanValue_JStr: "cleanValue R (JStr s) = trim s"
  by (simp add: cleanValue_def)

lemma unat_hexDigit:
  assumes "n < 16"
  shows "unat (hexDigit n) = (if n < 10 then 48 + n else 87 + n)"
proof -
  have small: "unat (of_nat m :: code_unit) = m" if "m < 65536" for m
    using that by (simp add: unat_of_nat)
  from assms show ?thesis
    by (simp add: hexDigit_def small del: of_nat_add of_nat_numeral)
qed

lemma unhex_hexDigit:
  assumes "n < 16"
  shows "unhex (hexDigit n) = Some n"
  using assms unat_hexDigit[OF assms]
  by (simp add: unhex_def Let_def)

lemma isWhiteSpace_unat: "isWhiteSpace u \<Longrightarrow> unat u \<le> 32 \<or> 160 \<le> unat u"
  by (auto simp: isWhiteSpace_def)

lemma hexDigit_not_space: "n < 16 \<Longrightarrow> \<not> isWhiteSpace (hexDigit n)"
  using isWhiteSpace_unat[of "hexDigit n"] unat_hexDigit[of n] by (auto split: if_splits)

lemma nibbles: "unat (b :: byte) div 16 < 16" "unat (b :: byte) mod 16 < 16"
proof -
  have "unat b < 256" using unsigned_less[of b, where 'a = nat] by simp
  then show "unat b div 16 < 16" by simp
  show "unat b mod 16 < 16" by simp
qed

lemma byte_split: "(of_nat (16 * (unat b div 16) + unat b mod 16) :: byte) = b"
  by simp

lemma fromHex_toHex: "fromHex (toHex bs) = bs"
  by (induction bs) (simp_all add: unhex_hexDigit nibbles)

lemma toHex_Nil_iff: "toHex bs = [] \<longleftrightarrow> bs = []"
  by (cases bs) simp_all

lemma last_toHex: "bs \<noteq> [] \<Longrightarrow> last (toHex bs) = hexDigit (unat (last bs) mod 16)"
  by (induction bs) (auto simp: toHex_Nil_iff)

lemma trim_toHex: "trim (toHex bs) = toHex bs"
proof (cases bs)
  case Nil
  then show ?thesis by (simp add: trim_Nil)
next
  case (Cons b bs')
  have "toHex bs \<noteq> []" using Cons by simp
  moreover have "\<not> isWhiteSpace (hd (toHex bs))" using Cons by (simp add: hexDigit_not_space nibbles)
  moreover have "\<not> isWhiteSpace (last (toHex bs))"
    using Cons last_toHex[of bs] by (simp add: hexDigit_not_space nibbles)
  ultimately show ?thesis by (rule trim_fixed)
qed









subsection \<open>The credential verifier\<close>

lemma verifyPassword_strong:
  assumes "storedScryptHash R row \<noteq> []" and "cleanValue R (row ''Salt'') \<noteq> []"
  shows "verifyPassword R allow row code =
           timingSafeEqual (scryptSync R code (cleanValue R (row ''Salt'')) 64)
             (fromHex (storedScryptHash R row))"
  using assms by (simp add: verifyPassword_def Let_def fromHex_toHex)


lemma demo_scrypt_length: "length (scryptSync demoRuntime p s n) = n"
  by (simp add: demoRuntime_def)

lemma storedRow_hash: "storedScryptHash R (storedRow h) = toHex h"
proof (cases h)
  case Nil
  then show ?thesis
    by (simp add: storedScryptHash_def storedRow_def emptyRow_def jsOr_def cleanValue_def trim_Nil)
next
  case (Cons b bs)
  then have "truthy (JStr (toHex h))" by simp
  then show ?thesis
    by (simp add: storedScryptHash_def storedRow_def jsOr_def cleanValue_JStr trim_toHex)
qed

lemma storedRow_salt: "cleanValue R (storedRow h ''Salt'') = lit ''s1''"
  by (simp add: storedRow_def cleanValue_JStr trim_def lit_def isWhiteSpace_def)







text \<open>
  Claim C4. A record with no strong hash and no \<^verbatim>\<open>Code\<close> value (the material of both legacy
  schemes) is rejected for every submitted code, whatever the legacy flag.
\<close>

theorem verify_no_credentials:
  assumes "storedScryptHash R row = []" and "cleanValue R (row ''Code'') = []"
  shows "verifyPassword R allow row code = Inr False"
  using assms by (simp add: verifyPassword_def)

theorem verify_no_credentials_witness:
  "storedScryptHash demoRuntime (emptyRow(''EmployeeID'' := JStr (lit ''1001''), ''Salt'' := JStr (lit ''s1''))) = []
   \<and> cleanValue demoRuntime ((emptyRow(''EmployeeID'' := JStr (lit ''1001''), ''Salt'' := JStr (lit ''s1''))) ''Code'') = []
   \<and> verifyPassword demoRuntime True (emptyRow(''EmployeeID'' := JStr (lit ''1001''), ''Salt'' := JStr (lit ''s1''))) (lit ''abc123'') = Inr False
   \<and> verifyPassword demoRuntime False (emptyRow(''EmployeeID'' := JStr (lit ''1001''), ''Salt'' := JStr (lit ''s1''))) (lit ''abc123'') = Inr False"
proof -
  let ?r = "emptyRow(''EmployeeID'' := JStr (lit ''1001''), ''Salt'' := JStr (lit ''s1''))"
  have a: "storedScryptHash demoRuntime ?r = []"
    by (simp add: storedScryptHash_def emptyRow_def jsOr_def cleanValue_def)
  have b: "cleanValue demoRuntime (?r ''Code'') = []"
    by (simp add: emptyRow_def cleanValue_def)
  from a b verify_no_credentials[OF a b, of True "lit ''abc123''"]
    verify_no_credentials[OF a b, of False "lit ''abc123''"]
  show ?thesis by blast
qed

subsection \<open>Normalized instructor rows\<close>

lemma trim_emp: 
  assumes "e \<noteq> []" "\<not> isWhiteSpace (last e)"
  shows "trim (lit ''emp-'' @ e) = lit ''emp-'' @ e"
proof (rule trim_fixed)
  show "lit ''emp-'' @ e \<noteq> []" using assms by simp
  show "\<not> isWhiteSpace (hd (lit ''emp-'' @ e))" by (simp add: lit_def isWhiteSpace_def)
  show "\<not> isWhiteSpace (last (lit ''emp-'' @ e))" using assms by simp
qed

lemma trim_default_salt: "trim (lit ''default-salt'') = lit ''default-salt''"
  by (rule trim_fixed) (simp_all add: lit_def isWhiteSpace_def)

lemma saltOf_trimmed: "trim (saltOf R row) = saltOf R row \<and> saltOf R row \<noteq> []"
proof -
  consider (explicit) "cleanValue R (row ''Salt'') \<noteq> []"
    | (emp) "cleanValue R (row ''Salt'') = []" "cleanValue R (row ''EmployeeID'') \<noteq> []"
    | (dflt) "cleanValue R (row ''Salt'') = []" "cleanValue R (row ''EmployeeID'') = []"
    by blast
  then show ?thesis
  proof cases
    case explicit
    then show ?thesis by (simp add: saltOf_def cleanValue_trimmed)
  next
    case emp
    with cleanValue_ends[of R "row ''EmployeeID''"] show ?thesis
      by (simp add: saltOf_def trim_emp)
  next
    case dflt
    then show ?thesis by (simp add: saltOf_def trim_default_salt) (simp add: lit_def)
  qed
qed

lemma normalizeRow_Salt: "normalizeRow R row ''Salt'' = JStr (saltOf R row)"
  by (simp add: normalizeRow_def saltOf_def Let_def)

lemma normalizeRow_salt_clean: "cleanValue R (normalizeRow R row ''Salt'') = saltOf R row"
  by (simp add: normalizeRow_Salt cleanValue_JStr saltOf_trimmed)

lemma storedScryptHash_set:
  assumes "h \<noteq> []" "trim h = h"
  shows "storedScryptHash R (r(''PasswordHash'' := JStr h)) = h"
  using assms by (simp add: storedScryptHash_def jsOr_def cleanValue_JStr)

lemma normalizeRow_cases:
  "(storedScryptHash R row \<noteq> [] \<and>
      normalizeRow R row = (row(''Salt'' := JStr (saltOf R row)))
                             (''PasswordHash'' := JStr (storedScryptHash R row)))
   \<or> (storedScryptHash R row = [] \<and> cleanValue R (row ''Code'') \<noteq> [] \<and>
      normalizeRow R row = ((row(''Salt'' := JStr (saltOf R row)))
          (''PasswordHash'' := JStr (toHex (scryptSync R (cleanValue R (row ''Code'')) (saltOf R row) 64))))
          (''Code'' := JUndefined))
   \<or> (storedScryptHash R row = [] \<and> cleanValue R (row ''Code'') = [] \<and>
      normalizeRow R row = row(''Salt'' := JStr (saltOf R row)))"
  by (simp add: normalizeRow_def Let_def storedScryptHash_def[symmetric] saltOf_def[symmetric])

lemma normalizeRow_material:
  "cleanValue R (normalizeRow R row ''Code'') = [] \<or> storedScryptHash R (normalizeRow R row) \<noteq> []"
proof -
  have t: "trim (storedScryptHash R row) = storedScryptHash R row"
    by (simp add: storedScryptHash_def cleanValue_trimmed)
  from normalizeRow_cases[of R row] show ?thesis
  proof (elim disjE conjE)
    assume "storedScryptHash R row \<noteq> []"
      and "normalizeRow R row = (row(''Salt'' := JStr (saltOf R row)))
                             (''PasswordHash'' := JStr (storedScryptHash R row))"
    then show ?thesis using t by (simp add: storedScryptHash_set)
  next
    assume "normalizeRow R row = ((row(''Salt'' := JStr (saltOf R row)))
          (''PasswordHash'' := JStr (toHex (scryptSync R (cleanValue R (row ''Code'')) (saltOf R row) 64))))
          (''Code'' := JUndefined)"
    then show ?thesis by (simp add: cleanValue_def)
  next
    assume "cleanValue R (row ''Code'') = []"
      and "normalizeRow R row = row(''Salt'' := JStr (saltOf R row))"
    then show ?thesis by simp
  qed
qed

text \<open>
  Claim C9. A row that the loader has normalized has a non-empty salt, and a non-empty strong
  hash or no \<^verbatim>\<open>Code\<close> value. For either value of the legacy flag, \<open>verifyPassword\<close> on it is
  the strong-hash comparison, or the rejection when there is no strong hash: the two legacy
  branches are never taken.
\<close>

theorem normalized_rows_strong_only:
  "cleanValue R (normalizeRow R row ''Salt'') \<noteq> []
   \<and> (cleanValue R (normalizeRow R row ''Code'') = [] \<or> storedScryptHash R (normalizeRow R row) \<noteq> [])
   \<and> verifyPassword R allow (normalizeRow R row) code =
       (if storedScryptHash R (normalizeRow R row) = [] then Inr False
        else timingSafeEqual (scryptSync R code (cleanValue R (normalizeRow R row ''Salt'')) 64)
               (fromHex (storedScryptHash R (normalizeRow R row))))"
proof -
  let ?n = "normalizeRow R row"
  have s: "cleanValue R (?n ''Salt'') \<noteq> []"
    by (simp add: normalizeRow_salt_clean saltOf_trimmed)
  have c: "cleanValue R (?n ''Code'') = [] \<or> storedScryptHash R ?n \<noteq> []"
    by (rule normalizeRow_material)
  have v: "verifyPassword R allow ?n code =
       (if storedScryptHash R ?n = [] then Inr False
        else timingSafeEqual (scryptSync R code (cleanValue R (?n ''Salt'')) 64)
               (fromHex (storedScryptHash R ?n)))"
  proof (cases "storedScryptHash R ?n = []")
    case True
    with c have "cleanValue R (?n ''Code'') = []" by simp
    with True show ?thesis by (simp add: verifyPassword_def)
  next
    case False
    with s show ?thesis by (simp add: verifyPassword_strong)
  qed
  from s c v show ?thesis by blast
qed

subsection \<open>The session store\<close>

lemma bearerToken_Bearer: "bearerToken (Some (lit ''Bearer '' @ tok)) = tok"
  by (simp add: bearerToken_def lit_def)

lemma getSession_stored:
  assumes "ss tok = Some s"
  shows "getSession ss t (Some (lit ''Bearer '' @ tok)) =
           (if expiresAt s < t then (None, ss(tok := None)) else (Some (tok, s), ss))"
  using assms by (simp add: getSession_def bearerToken_Bearer)

lemma createSession_stores:
  "snd (createSession ss now rnd eid nm) (fst (createSession ss now rnd eid nm)) =
     Some \<lparr>employeeId = eid, employeeName = nm, expiresAt = now + SESSION_TTL_MS\<rparr>"
  by (simp add: createSession_def Let_def)

lemma createSession_token: "fst (createSession ss now rnd eid nm) = toHex rnd"
  by (simp add: createSession_def Let_def)

text \<open>
  Claim C3, as the code has it. The guard of \<open>getSession\<close> is \<^verbatim>\<open>session.expiresAt < Date.now()\<close>:
  a token stored with expiry \<open>E\<close> resolves to none, and its entry is deleted, at every instant
  after \<open>E\<close>; at \<open>E\<close> itself and before, it resolves to the stored session. \<open>createSession\<close>
  stores the session under the token it returns, with expiry \<open>now + SESSION_TTL_MS\<close>.
\<close>

theorem session_resolve:
  "(ss tok = Some s \<longrightarrow>
      getSession ss t (Some (lit ''Bearer '' @ tok)) =
        (if expiresAt s < t then (None, ss(tok := None)) else (Some (tok, s), ss)))
   \<and> snd (createSession ss0 now rnd eid nm) (fst (createSession ss0 now rnd eid nm)) =
        Some \<lparr>employeeId = eid, employeeName = nm, expiresAt = now + SESSION_TTL_MS\<rparr>"
  by (simp add: getSession_stored createSession_stores)

theorem session_resolve_witness:
  "snd (createSession Map.empty 1000 (replicate 32 171) (lit ''1001'') (lit ''Dana''))
       (toHex (replicate 32 171))
     = Some \<lparr>employeeId = lit ''1001'', employeeName = lit ''Dana'', expiresAt = 1000 + SESSION_TTL_MS\<rparr>
   \<and> fst (getSession (snd (createSession Map.empty 1000 (replicate 32 171) (lit ''1001'') (lit ''Dana'')))
        (1001 + SESSION_TTL_MS) (Some (lit ''Bearer '' @ toHex (replicate 32 171)))) = None
   \<and> fst (getSession (snd (createSession Map.empty 1000 (replicate 32 171) (lit ''1001'') (lit ''Dana'')))
        (999 + SESSION_TTL_MS) (Some (lit ''Bearer '' @ toHex (replicate 32 171))))
     = Some (toHex (replicate 32 171),
         \<lparr>employeeId = lit ''1001'', employeeName = lit ''Dana'', expiresAt = 1000 + SESSION_TTL_MS\<rparr>)"
proof -
  let ?c = "createSession Map.empty 1000 (replicate 32 171) (lit ''1001'') (lit ''Dana'')"
  let ?s = "\<lparr>employeeId = lit ''1001'', employeeName = lit ''Dana'', expiresAt = 1000 + SESSION_TTL_MS\<rparr>"
  have st: "snd ?c (toHex (replicate 32 171)) = Some ?s"
    using session_resolve[where ?ss0.0 = Map.empty and now = 1000 and rnd = "replicate 32 171"
        and eid = "lit ''1001''" and nm = "lit ''Dana''"]
    by (simp add: createSession_token)
  have a: "fst (getSession (snd ?c) (1001 + SESSION_TTL_MS) (Some (lit ''Bearer '' @ toHex (replicate 32 171)))) = None"
    using session_resolve[where ss = "snd ?c" and tok = "toHex (replicate 32 171)" and s = ?s
        and t = "1001 + SESSION_TTL_MS"] st by simp
  have b: "fst (getSession (snd ?c) (999 + SESSION_TTL_MS) (Some (lit ''Bearer '' @ toHex (replicate 32 171))))
      = Some (toHex (replicate 32 171), ?s)"
    using session_resolve[where ss = "snd ?c" and tok = "toHex (replicate 32 171)" and s = ?s
        and t = "999 + SESSION_TTL_MS"] st by simp
  from st a b show ?thesis by blast
qed

text \<open>
  At the exact expiry instant the token still resolves: the session created at time 1000
  is returned at time \<open>1000 + SESSION_TTL_MS\<close>.
\<close>

theorem session_resolve_counterexample:
  "fst (getSession (snd (createSession Map.empty 1000 (replicate 32 171) (lit ''1001'') (lit ''Dana'')))
        (1000 + SESSION_TTL_MS) (Some (lit ''Bearer '' @ toHex (replicate 32 171))))
     = Some (toHex (replicate 32 171),
         \<lparr>employeeId = lit ''1001'', employeeName = lit ''Dana'', expiresAt = 1000 + SESSION_TTL_MS\<rparr>)"
proof -
  let ?c = "createSession Map.empty 1000 (replicate 32 171) (lit ''1001'') (lit ''Dana'')"
  let ?s = "\<lparr>employeeId = lit ''1001'', employeeName = lit ''Dana'', expiresAt = 1000 + SESSION_TTL_MS\<rparr>"
  have st: "snd ?c (toHex (replicate 32 171)) = Some ?s"
    using createSession_stores[of Map.empty 1000 "replicate 32 171" "lit ''1001''" "lit ''Dana''"]
    by (simp add: createSession_token)
  show ?thesis
    using getSession_stored[where ss = "snd ?c" and tok = "toHex (replicate 32 171)" and s = ?s
        and t = "1000 + SESSION_TTL_MS"] st by simp
qed

subsection \<open>The program-rule table\<close>

lemma rulesFrom_foldl:
  "rulesFrom R programRows i state = foldl (ruleRow R) state (drop i programRows)"
proof (induction R programRows i state rule: rulesFrom.induct)
  case (1 R programRows i state)
  show ?case
  proof (cases "i < length programRows")
    case True
    then have d: "drop i programRows = programRows ! i # drop (Suc i) programRows"
      by (simp add: Cons_nth_drop_Suc)
    from True "1.IH" show ?thesis
      by (subst rulesFrom.simps) (simp add: d)
  next
    case False
    then show ?thesis by (subst rulesFrom.simps) simp
  qed
qed

text \<open>The first row is not read: the table of \<open>header # rest\<close> is built from \<open>rest\<close>.\<close>

lemma rulesFrom_header_unused:
  "rulesFrom R (header # rest) 1 state = foldl (ruleRow R) state rest"
  by (simp add: rulesFrom_foldl)

text \<open>A row that fails the test of the loop changes nothing, whatever stands around it.\<close>

lemma ruleRow_skipped:
  assumes "programKeyOf R (snd state) (rowOrEmpty r) = []
           \<or> \<not> isFinite (meetingNumOf R (snd state) (rowOrEmpty r))"
  shows "ruleRow R state r = state"
  using assms by (auto simp: ruleRow_def Let_def)

text \<open>
  A row with both cells does not read \<^verbatim>\<open>Object.prototype\<close>; its meeting number is the number
  of its second cell.
\<close>

lemma full_row_cells:
  assumes "1 < length row"
  shows "programKeyOf R proto row = normalizeProgramName R (row ! 0)"
    and "meetingNumOf R proto row = toNumber R (row ! 1)"
  using assms by (auto simp: programKeyOf_def meetingNumOf_def)

lemma notesFrom_pairs: "notesFrom R row j acc = acc @ notesOfPairs R (drop j row)"
proof (induction R row j acc rule: notesFrom.induct)
  case (1 R row j acc)
  show ?case
  proof (cases "j + 1 < length row")
    case True
    then have "drop j row = row ! j # drop (Suc j) row"
      by (simp add: Cons_nth_drop_Suc)
    moreover from True have "drop (Suc j) row = row ! (j + 1) # drop (j + 2) row"
      by (simp add: Cons_nth_drop_Suc)
    ultimately have d: "drop j row = row ! j # row ! (j + 1) # drop (j + 2) row" by simp
    have p: "notesOfPairs R (drop j row) =
        (if cleanValue R (row ! j) \<noteq> [] \<and> cleanValue R (row ! (j + 1)) \<noteq> []
         then [Note (cleanValue R (row ! j)) (cleanValue R (row ! (j + 1)))] else [])
        @ notesOfPairs R (drop (j + 2) row)"
      by (subst d) (simp add: notesOfPairs_def)
    from True "1.IH" show ?thesis
      by (subst notesFrom.simps) (simp add: p)
  next
    case False
    then have "length (drop j row) \<le> 1" by simp
    then have "pairsOf (drop j row) = []"
      by (cases "drop j row" rule: pairsOf.cases) simp_all
    with False show ?thesis by (subst notesFrom.simps) (simp add: notesOfPairs_def)
  qed
qed

text \<open>
  A kept row whose key names nothing that objects inherit stores its notes, the pairs of its
  columns from the third on, under its key and meeting number, and leaves the other keys, the
  other meeting numbers of its key and \<^verbatim>\<open>Object.prototype\<close> as they were.
\<close>

lemma ruleRow_kept:
  assumes "programKeyOf R proto (rowOrEmpty r) = key" "meetingNumOf R proto (rowOrEmpty r) = num"
    and "key \<noteq> []" "isFinite num"
    and "key \<noteq> lit ''__proto__''" "key \<notin> set objectPrototypeFunctions" "proto key = None"
  shows "fst (ruleRow R (table, proto) r) key
           = Some ((case table key of None \<Rightarrow> Map.empty | Some inner \<Rightarrow> inner)
                     (num \<mapsto> notesOfPairs R (drop 2 (rowOrEmpty r))))"
    and "k \<noteq> key \<Longrightarrow> fst (ruleRow R (table, proto) r) k = table k"
    and "snd (ruleRow R (table, proto) r) = proto"
  using assms by (auto simp: ruleRow_def Let_def notesFrom_pairs split: option.splits)

text \<open>
  On an ordinary sheet: the header and the row with the meeting number \<^verbatim>\<open>'abc'\<close> leave no
  trace, and the third row stores its two notes under \<^verbatim>\<open>robotics\<close> and 2.
\<close>

lemma program_rule_rows_example:
  "map_option (\<lambda>inner. inner (Fin 2))
     (fst (rulesFrom demoRuntime [headerRow, malformedRow, goodRow] 1 (Map.empty, Map.empty))
        (lit ''robotics''))
     = Some (Some [Note (lit ''Bring'') (lit ''Laptop''), Note (lit ''Room'') (lit ''12'')])
   \<and> fst (rulesFrom demoRuntime [headerRow, malformedRow, goodRow] 1 (Map.empty, Map.empty))
        (lit ''program'') = None
   \<and> rulesFrom demoRuntime [headerRow, malformedRow, goodRow] 1 (Map.empty, Map.empty)
       = rulesFrom demoRuntime [headerRow, goodRow] 1 (Map.empty, Map.empty)"
proof -
  have "ruleRow demoRuntime (Map.empty, Map.empty) malformedRow = (Map.empty, Map.empty)"
    by (rule ruleRow_skipped) code_simp
  then have "rulesFrom demoRuntime [headerRow, malformedRow, goodRow] 1 (Map.empty, Map.empty)
       = rulesFrom demoRuntime [headerRow, goodRow] 1 (Map.empty, Map.empty)"
    by (simp add: rulesFrom_foldl)
  moreover have "map_option (\<lambda>inner. inner (Fin 2))
     (fst (rulesFrom demoRuntime [headerRow, malformedRow, goodRow] 1 (Map.empty, Map.empty))
        (lit ''robotics''))
     = Some (Some [Note (lit ''Bring'') (lit ''Laptop''), Note (lit ''Room'') (lit ''12'')])"
    by code_simp
  moreover have "fst (rulesFrom demoRuntime [headerRow, malformedRow, goodRow] 1 (Map.empty, Map.empty))
        (lit ''program'') = None"
    by code_simp
  ultimately show ?thesis by (intro conjI)
qed

text \<open>
  Claim C6 fails on a sheet with a program named \<^verbatim>\<open>__proto__\<close>. The row \<^verbatim>\<open>['x']\<close> has no
  meeting-number cell: \<^verbatim>\<open>Number(undefined)\<close> is not finite, and in the sheet
  \<^verbatim>\<open>[header, ['x']]\<close> the row is passed over. After the row \<^verbatim>\<open>['__proto__', 1]\<close>, which puts its
  empty notes array on \<^verbatim>\<open>Object.prototype\<close> under \<^verbatim>\<open>'1'\<close> and enters nothing in the table, the
  same row reads that array as its \<^verbatim>\<open>row[1]\<close>, \<^verbatim>\<open>Number([])\<close> is 0, and the row is kept under
  the meeting number 0.
\<close>

theorem program_rule_rows_prototype:
  "meetingNumOf demoRuntime Map.empty (rowOrEmpty shortRow) = NaN
   \<and> fst (rulesFrom demoRuntime [headerRow, shortRow] 1 (Map.empty, Map.empty)) (lit ''x'') = None
   \<and> fst (rulesFrom demoRuntime [headerRow, protoRow, shortRow] 1 (Map.empty, Map.empty))
        (lit ''__proto__'') = None
   \<and> snd (rulesFrom demoRuntime [headerRow, protoRow, shortRow] 1 (Map.empty, Map.empty))
        (lit ''1'') = Some []
   \<and> map_option (\<lambda>inner. inner (Fin 0))
        (fst (rulesFrom demoRuntime [headerRow, protoRow, shortRow] 1 (Map.empty, Map.empty))
           (lit ''x'')) = Some (Some [])"
  by code_simp

subsection \<open>Reload\<close>

lemma loadData_rejects:
  assumes "isl (instructorSheet src) \<or> isl (programRulesSheet src) \<or> isl (globalMessagesSheet src)"
  shows "\<exists>e. loadData R src st proto = (Inl e, st, proto)"
  using assms by (auto simp: loadData_def split: sum.splits)

lemma loadData_replaced:
  assumes "loadData R src st proto = (res, st', proto')" and "st' \<noteq> st"
  shows "res = Inr () \<and> \<not> isl (instructorSheet src) \<and> \<not> isl (programRulesSheet src)
           \<and> \<not> isl (globalMessagesSheet src)"
  using assms by (auto simp: loadData_def split: sum.splits)

text \<open>
  Claim C2. When one of the three parses throws, \<open>loadData\<close> rejects and the store is the one
  before the call, and so it is after the periodic reload, which drops the rejection;
  \<^verbatim>\<open>Object.prototype\<close> is left alone too. A \<open>loadData\<close> that leaves another store than it found
  has resolved, with all three tables parsed.
\<close>

theorem reload_all_or_nothing:
  "(isl (instructorSheet src) \<or> isl (programRulesSheet src) \<or> isl (globalMessagesSheet src) \<longrightarrow>
      (\<exists>e. loadData R src st proto = (Inl e, st, proto)) \<and> periodicReload R src st proto = (st, proto))
   \<and> (loadData R src st proto = (res, st', proto') \<and> st' \<noteq> st \<longrightarrow>
        res = Inr () \<and> \<not> isl (instructorSheet src) \<and> \<not> isl (programRulesSheet src)
          \<and> \<not> isl (globalMessagesSheet src))"
proof -
  have "periodicReload R src st proto = (st, proto)" if "\<exists>e. loadData R src st proto = (Inl e, st, proto)"
    using that by (auto simp: periodicReload_def)
  then show ?thesis
    using loadData_rejects[of src R st proto] loadData_replaced[of R src st proto res st' proto']
    by blast
qed

theorem reload_all_or_nothing_witness:
  "isl (programRulesSheet \<lparr>instructorSheet = Inr [emptyRow], programRulesSheet = Inl Error,
                            globalMessagesSheet = Inr []\<rparr>)
   \<and> loadData demoRuntime \<lparr>instructorSheet = Inr [emptyRow], programRulesSheet = Inl Error,
                            globalMessagesSheet = Inr []\<rparr> loadedStore Map.empty
       = (Inl Error, loadedStore, Map.empty)
   \<and> periodicReload demoRuntime \<lparr>instructorSheet = Inr [emptyRow], programRulesSheet = Inl Error,
                            globalMessagesSheet = Inr []\<rparr> loadedStore Map.empty
       = (loadedStore, Map.empty)
   \<and> loadData demoRuntime \<lparr>instructorSheet = Inr [], programRulesSheet = Inr [headerRow],
                            globalMessagesSheet = Inr []\<rparr> loadedStore Map.empty
       = (Inr (), initialStore, Map.empty)
   \<and> initialStore \<noteq> loadedStore"
proof -
  let ?bad = "\<lparr>instructorSheet = Inr [emptyRow], programRulesSheet = Inl Error, globalMessagesSheet = Inr []\<rparr>"
  let ?ok = "\<lparr>instructorSheet = Inr [], programRulesSheet = Inr [headerRow], globalMessagesSheet = Inr []\<rparr>"
  have a: "isl (programRulesSheet ?bad)" by simp
  note t = reload_all_or_nothing[where src = ?bad and R = demoRuntime and st = loadedStore
      and proto = Map.empty]
  from t a have b: "loadData demoRuntime ?bad loadedStore Map.empty = (Inl Error, loadedStore, Map.empty)"
    by (auto simp: loadData_def)
  from t a have c: "periodicReload demoRuntime ?bad loadedStore Map.empty = (loadedStore, Map.empty)"
    by simp
  have d: "loadData demoRuntime ?ok loadedStore Map.empty = (Inr (), initialStore, Map.empty)"
    by (simp add: loadData_def rulesFrom_foldl globalMessagesOf_def initialStore_def)
  have e: "initialStore \<noteq> loadedStore" by (simp add: initialStore_def loadedStore_def)
  from reload_all_or_nothing[where src = ?ok and R = demoRuntime and st = loadedStore
      and proto = Map.empty and res = "Inr ()" and st' = initialStore and proto' = Map.empty] d e
  have "\<not> isl (instructorSheet ?ok)" by blast
  with a b c d e show ?thesis by blast
qed

subsection \<open>Activity extraction\<close>

lemma extractFrom_over: "extractFrom R row i activities = extractOver R row [i..<17] activities"
proof (induction R row i activities rule: extractFrom.induct)
  case (1 R row i activities)
  show ?case
  proof (cases "i \<le> 16")
    case True
    then have u: "[i..<17] = i # [i + 1..<17]" by (simp add: upt_conv_Cons)
    from True "1.IH" show ?thesis
      by (subst extractFrom.simps) (simp add: u groupEmitted_def split: option.splits)
  next
    case False
    then show ?thesis by (subst extractFrom.simps) simp
  qed
qed

lemma extractOver_result:
  assumes "extractOver R row ixs activities = Inr res"
  shows "res = activities @
           map (\<lambda>i. activityOf R row i (the (dateToISOString R (dateField row i))))
             (filter (groupEmitted R row) ixs)"
  using assms
proof (induction ixs arbitrary: activities)
  case Nil
  then show ?case by simp
next
  case (Cons i ixs)
  show ?case
  proof (cases "groupEmitted R row i")
    case False
    with Cons.prems have "extractOver R row ixs activities = Inr res" by simp
    from Cons.IH[OF this] False show ?thesis by simp
  next
    case True
    with Cons.prems obtain stamp where s: "dateToISOString R (dateField row i) = Some stamp"
      and r: "extractOver R row ixs (activities @ [activityOf R row i stamp]) = Inr res"
      by (auto split: option.splits)
    from Cons.IH[OF r] True s show ?thesis by simp
  qed
qed


lemma extractOver_throws:
  assumes "i \<in> set ixs" "groupEmitted R row i" "dateToISOString R (dateField row i) = None"
  shows "extractOver R row ixs activities = Inl RangeError"
  using assms
proof (induction ixs arbitrary: activities)
  case Nil
  then show ?case by simp
next
  case (Cons j ixs)
  show ?case
  proof (cases "j = i")
    case True
    with Cons.prems show ?thesis by simp
  next
    case False
    with Cons.prems have "i \<in> set ixs" by simp
    from Cons.IH[OF this Cons.prems(2,3)] show ?thesis by (simp split: option.splits)
  qed
qed

lemma meetingNumber_activityOf: "meetingNumber (activityOf R row i stamp) = i"
  by (simp add: activityOf_def)

lemma count_in_filter:
  "length (filter (\<lambda>j. j = i) (filter P [1..<17])) = (if 1 \<le> i \<and> i \<le> 16 \<and> P i then 1 else 0)"
proof -
  have "distinct (filter P [1..<17])" by simp
  then have "length (filter (\<lambda>j. j = i) (filter P [1..<17])) = card ({j. j = i} \<inter> set (filter P [1..<17]))"
    by (rule distinct_length_filter)
  also have "{j. j = i} \<inter> set (filter P [1..<17]) = (if 1 \<le> i \<and> i \<le> 16 \<and> P i then {i} else {})"
    by auto
  finally show ?thesis by simp
qed

lemma decimal_1: "decimal (Suc 0) = ''1''"
  by (simp add: decimal.simps digitChar_def)

lemma extractActivities_result:
  assumes "extractActivities R row = Inr acts"
  shows "acts = map (\<lambda>i. activityOf R row i (the (dateToISOString R (dateField row i))))
                  (filter (groupEmitted R row) [1..<17])"
  using extractOver_result[of R row "[1..<17]" "[]" acts] assms
  by (simp add: extractActivities_def extractFrom_over)

lemma extractActivities_throws:
  assumes "1 \<le> i" "i \<le> 16" "hasValue R (dateField row i)" "\<not> hasValue R (cancelField row i)"
    "dateToISOString R (dateField row i) = None"
  shows "extractActivities R row = Inl RangeError"
  using assms extractOver_throws[of i "[1..<17]" R row "[]"]
  by (simp add: extractActivities_def extractFrom_over groupEmitted_def)



lemma hasValue_groupField:
  "hasValue R (groupField row name i JUndefined)
     \<longleftrightarrow> (if truthy (row (name @ decimal i)) then hasValue R (row (name @ decimal i))
          else i = 1 \<and> hasValue R (row name))"
  by (simp add: groupField_def jsOr_def hasValue_def)

text \<open>
  Claim C5, as the code has it. The field of a group is the cell that
  \<^verbatim>\<open>row[`Name${i}`] || (i === 1 ? row.Name : undefined)\<close> selects: the suffixed cell when it is
  truthy, else for group 1 the unsuffixed cell, else nothing; and a field is present when
  \<open>hasValue\<close> holds of the selected cell. When a group of 1..16 has a present date that does
  not parse and no present cancellation field, extraction throws. When extraction returns,
  the list holds one activity for each index of 1..16 whose date is present and whose
  cancellation field is not, in index order, and nothing else: none for an index without a
  date, none for an index with a cancellation field, exactly one otherwise.
\<close>

theorem extract_emits_groups:
  "(extractActivities R row = Inr acts \<longrightarrow>
      acts = map (\<lambda>i. activityOf R row i (the (dateToISOString R (dateField row i))))
               (filter (groupEmitted R row) [1..<17])
      \<and> map meetingNumber acts = filter (groupEmitted R row) [1..<17]
      \<and> (\<forall>i. length (filter (\<lambda>a. meetingNumber a = i) acts)
             = (if 1 \<le> i \<and> i \<le> 16 \<and> hasValue R (dateField row i) \<and> \<not> hasValue R (cancelField row i)
                then 1 else 0)))
   \<and> dateField row 1 = (if truthy (row ''Date1'') then row ''Date1'' else row ''Date'')
   \<and> cancelField row 1 = (if truthy (row ''Cancel1'') then row ''Cancel1'' else row ''Cancel'')
   \<and> groupField row name 1 dflt = (if truthy (row (name @ ''1'')) then row (name @ ''1'') else row name)
   \<and> (1 \<le> k \<and> k \<le> 16 \<and> hasValue R (dateField row k) \<and> \<not> hasValue R (cancelField row k)
        \<and> dateToISOString R (dateField row k) = None \<longrightarrow>
      extractActivities R row = Inl RangeError)
   \<and> (hasValue R (dateField row j)
        \<longleftrightarrow> (if truthy (row (''Date'' @ decimal j)) then hasValue R (row (''Date'' @ decimal j))
             else j = 1 \<and> hasValue R (row ''Date'')))
   \<and> (hasValue R (cancelField row j)
        \<longleftrightarrow> (if truthy (row (''Cancel'' @ decimal j)) then hasValue R (row (''Cancel'' @ decimal j))
             else j = 1 \<and> hasValue R (row ''Cancel'')))"
proof -
  have fb: "groupField row n 1 d = (if truthy (row (n @ ''1'')) then row (n @ ''1'') else row n)" for n d
    by (simp add: groupField_def decimal_1 jsOr_def)
  have main: "acts = map (\<lambda>i. activityOf R row i (the (dateToISOString R (dateField row i))))
               (filter (groupEmitted R row) [1..<17])
      \<and> map meetingNumber acts = filter (groupEmitted R row) [1..<17]
      \<and> (\<forall>i. length (filter (\<lambda>a. meetingNumber a = i) acts)
             = (if 1 \<le> i \<and> i \<le> 16 \<and> hasValue R (dateField row i) \<and> \<not> hasValue R (cancelField row i)
                then 1 else 0))"
    if e: "extractActivities R row = Inr acts"
  proof -
    let ?f = "\<lambda>i. activityOf R row i (the (dateToISOString R (dateField row i)))"
    have a: "acts = map ?f (filter (groupEmitted R row) [1..<17])"
      using e by (rule extractActivities_result)
    have m: "map meetingNumber (map ?f xs) = xs" for xs
      by (induction xs) (simp_all add: meetingNumber_activityOf)
    have c: "length (filter (\<lambda>a. meetingNumber a = i) (map ?f xs)) = length (filter (\<lambda>j. j = i) xs)" for i xs
      by (induction xs) (simp_all add: meetingNumber_activityOf)
    have "length (filter (\<lambda>a. meetingNumber a = i) acts)
             = (if 1 \<le> i \<and> i \<le> 16 \<and> hasValue R (dateField row i) \<and> \<not> hasValue R (cancelField row i)
                then 1 else 0)" for i
      by (subst a, subst c, subst count_in_filter) (simp add: groupEmitted_def)
    with a m[of "filter (groupEmitted R row) [1..<17]"] show ?thesis by simp
  qed
  show ?thesis
  proof (intro conjI impI)
    assume e: "extractActivities R row = Inr acts"
    from main[OF e] show "acts = map (\<lambda>i. activityOf R row i (the (dateToISOString R (dateField row i))))
               (filter (groupEmitted R row) [1..<17])" by blast
    from main[OF e] show "map meetingNumber acts = filter (groupEmitted R row) [1..<17]" by blast
    from main[OF e] show "\<forall>i. length (filter (\<lambda>a. meetingNumber a = i) acts)
             = (if 1 \<le> i \<and> i \<le> 16 \<and> hasValue R (dateField row i) \<and> \<not> hasValue R (cancelField row i)
                then 1 else 0)" by blast
  next
    show "dateField row 1 = (if truthy (row ''Date1'') then row ''Date1'' else row ''Date'')"
      using fb[of "''Date''" JUndefined] by (simp add: dateField_def)
    show "cancelField row 1 = (if truthy (row ''Cancel1'') then row ''Cancel1'' else row ''Cancel'')"
      using fb[of "''Cancel''" JUndefined] by (simp add: cancelField_def)
    show "groupField row name 1 dflt = (if truthy (row (name @ ''1'')) then row (name @ ''1'') else row name)"
      by (rule fb)
    show "hasValue R (dateField row j)
        \<longleftrightarrow> (if truthy (row (''Date'' @ decimal j)) then hasValue R (row (''Date'' @ decimal j))
             else j = 1 \<and> hasValue R (row ''Date''))"
      unfolding dateField_def by (rule hasValue_groupField)
    show "hasValue R (cancelField row j)
        \<longleftrightarrow> (if truthy (row (''Cancel'' @ decimal j)) then hasValue R (row (''Cancel'' @ decimal j))
             else j = 1 \<and> hasValue R (row ''Cancel''))"
      unfolding cancelField_def by (rule hasValue_groupField)
  next
    assume "1 \<le> k \<and> k \<le> 16 \<and> hasValue R (dateField row k) \<and> \<not> hasValue R (cancelField row k)
        \<and> dateToISOString R (dateField row k) = None"
    then show "extractActivities R row = Inl RangeError"
      by (intro extractActivities_throws[of k]) simp_all
  qed
qed

theorem extract_emits_groups_witness:
  "extractActivities demoRuntime weekRow = Inr (projr (extractActivities demoRuntime weekRow))
   \<and> map meetingNumber (projr (extractActivities demoRuntime weekRow)) = [1, 3]
   \<and> length (filter (\<lambda>a. meetingNumber a = 3) (projr (extractActivities demoRuntime weekRow))) = 1
   \<and> length (filter (\<lambda>a. meetingNumber a = 2) (projr (extractActivities demoRuntime weekRow))) = 0
   \<and> length (filter (\<lambda>a. meetingNumber a = 4) (projr (extractActivities demoRuntime weekRow))) = 0
   \<and> dateField weekRow 1 = JStr (lit ''2026-01-05T08:00:00.000Z'')"
proof -
  let ?acts = "projr (extractActivities demoRuntime weekRow)"
  have "\<not> isl (extractActivities demoRuntime weekRow)" by code_simp
  then have e: "extractActivities demoRuntime weekRow = Inr ?acts" by simp
  note t = extract_emits_groups[where R = demoRuntime and row = weekRow and acts = ?acts
      and name = "''Date''" and dflt = JUndefined]
  have f: "filter (groupEmitted demoRuntime weekRow) [1..<17] = [1, 3]" by code_simp
  from t e have "map meetingNumber ?acts = filter (groupEmitted demoRuntime weekRow) [1..<17]"
    by blast
  with f have m: "map meetingNumber ?acts = [1, 3]" by (simp only:)
  have h3: "hasValue demoRuntime (dateField weekRow 3) \<and> \<not> hasValue demoRuntime (cancelField weekRow 3)"
    by code_simp
  have h2: "hasValue demoRuntime (cancelField weekRow 2)" by code_simp
  have h4: "\<not> hasValue demoRuntime (dateField weekRow 4)" by code_simp
  from t e have c: "length (filter (\<lambda>a. meetingNumber a = i) ?acts)
             = (if 1 \<le> i \<and> i \<le> 16 \<and> hasValue demoRuntime (dateField weekRow i)
                     \<and> \<not> hasValue demoRuntime (cancelField weekRow i) then 1 else 0)" for i
    by blast
  have c3: "length (filter (\<lambda>a. meetingNumber a = 3) ?acts) = 1" using c[of 3] h3 by simp
  have c2: "length (filter (\<lambda>a. meetingNumber a = 2) ?acts) = 0" using c[of 2] h2 by simp
  have c4: "length (filter (\<lambda>a. meetingNumber a = 4) ?acts) = 0" using c[of 4] h4 by simp
  from t have "dateField weekRow 1 = (if truthy (weekRow ''Date1'') then weekRow ''Date1'' else weekRow ''Date'')"
    by blast
  then have d: "dateField weekRow 1 = JStr (lit ''2026-01-05T08:00:00.000Z'')"
    by (simp add: weekRow_def emptyRow_def)
  from e m c3 c2 c4 d show ?thesis by blast
qed

text \<open>
  Three records on which the claim fails as it is worded. A group with a date that is present
  and does not parse, and no cancellation marker, yields no activity: the call throws. A
  group whose cancellation cell holds the number 0, a cell with a value, is emitted: the
  operator \<^verbatim>\<open>||\<close> passes over the cell before \<open>hasValue\<close> sees it. And group 1 of a record with
  a date in the unsuffixed column is not emitted when the suffixed cell holds a blank: the
  blank is truthy, so the unsuffixed column is not read.
\<close>

theorem extract_emits_groups_counterexample:
  "hasValue demoRuntime (dateField tbdRow 1) \<and> \<not> hasValue demoRuntime (cancelField tbdRow 1)
   \<and> extractActivities demoRuntime tbdRow = Inl RangeError
   \<and> hasValue demoRuntime (zeroCancelRow ''Date2'') \<and> hasValue demoRuntime (zeroCancelRow ''Cancel2'')
   \<and> map_sum id (map meetingNumber) (extractActivities demoRuntime zeroCancelRow) = Inr [2]
   \<and> hasValue demoRuntime (blankDateRow ''Date'')
   \<and> extractActivities demoRuntime blankDateRow = Inr []"
  by code_simp

subsection \<open>The schedule request on a record with an unparseable date\<close>







subsection \<open>The login request\<close>

lemma server_login: 
  "server R allow st now rnd \<lparr>reqMethod = ''POST'', url = ''/api/login'', authorization = auth, body = parsed\<rparr>
     = (case login R allow st now rnd parsed of
          (Inl e, st') \<Rightarrow> (SendJson 500 (ServerError e), st')
        | (Inr r, st') \<Rightarrow> (r, st'))"
  by (simp add: server_def dispatch_def)

lemma cleanField_scalar:
  assumes "map_of props k = Some (JScalar c)"
  shows "cleanField R (JObj props) k = Inr (cleanValue R c)"
  using assms by (auto simp: cleanField_def cleanValueJ_def cleanValue_def)

text \<open>
  Claim C7, as the code has it. A login request whose body does not parse is answered with
  status 500. When the body parses and both fields convert to strings: status 400 if the
  trimmed \<^verbatim>\<open>employeeId\<close> or the trimmed \<^verbatim>\<open>code\<close> is empty; else 401 if no record has that trimmed
  \<^verbatim>\<open>EmployeeID\<close>, or if \<open>verifyPassword\<close> on the first such record returns false; else, when it
  returns true, 200 with the new token and the display name, the session being stored under
  the token. The sessions are otherwise left as they were.
\<close>

theorem login_status:
  "(parsed = Inl e \<longrightarrow>
      server R allow st now rnd
        \<lparr>reqMethod = ''POST'', url = ''/api/login'', authorization = auth, body = parsed\<rparr>
      = (SendJson 500 (ServerError e), st))
   \<and> (parsed = Inr b \<and> cleanField R b ''employeeId'' = Inr eid \<and> cleanField R b ''code'' = Inr code \<longrightarrow>
       (eid = [] \<or> code = [] \<longrightarrow>
          server R allow st now rnd
            \<lparr>reqMethod = ''POST'', url = ''/api/login'', authorization = auth, body = parsed\<rparr>
          = (SendJson 400 (ErrorBody ''Missing credentials''), st))
       \<and> (eid \<noteq> [] \<and> code \<noteq> [] \<and> findInstructor R (store st) eid = None \<longrightarrow>
          server R allow st now rnd
            \<lparr>reqMethod = ''POST'', url = ''/api/login'', authorization = auth, body = parsed\<rparr>
          = (SendJson 401 (ErrorBody ''Invalid credentials''), st))
       \<and> (eid \<noteq> [] \<and> code \<noteq> [] \<and> findInstructor R (store st) eid = Some row
            \<and> verifyPassword R allow row code = Inr False \<longrightarrow>
          server R allow st now rnd
            \<lparr>reqMethod = ''POST'', url = ''/api/login'', authorization = auth, body = parsed\<rparr>
          = (SendJson 401 (ErrorBody ''Invalid credentials''), st))
       \<and> (eid \<noteq> [] \<and> code \<noteq> [] \<and> findInstructor R (store st) eid = Some row
            \<and> verifyPassword R allow row code = Inr True \<longrightarrow>
          server R allow st now rnd
            \<lparr>reqMethod = ''POST'', url = ''/api/login'', authorization = auth, body = parsed\<rparr>
          = (SendJson 200 (LoginOk (toHex rnd) (cleanValue R (row ''Employee''))),
             st\<lparr>sessionMap := (sessionMap st)(toHex rnd \<mapsto>
                  \<lparr>employeeId = eid, employeeName = cleanValue R (row ''Employee''),
                   expiresAt = now + SESSION_TTL_MS\<rparr>)\<rparr>)))"
  by (simp add: server_login login_def createSession_def Let_def)

lemma dana_found: "findInstructor demoRuntime (store loginState) (lit ''1001'') = Some dana"
  by (simp add: findInstructor_def loginState_def dana_def storedRow_def cleanValue_def trim_def
      lit_def isWhiteSpace_def)

lemma nobody_found: "findInstructor demoRuntime (store loginState) (lit ''2002'') = None"
  by (simp add: findInstructor_def loginState_def dana_def storedRow_def cleanValue_def trim_def
      lit_def isWhiteSpace_def)

lemma dana_right_code: "verifyPassword demoRuntime False dana (lit ''abc123'') = Inr True"
proof -
  let ?d = "scryptSync demoRuntime (lit ''abc123'') (lit ''s1'') 64"
  have ne: "?d \<noteq> []" using demo_scrypt_length[of "lit ''abc123''" "lit ''s1''" 64] by auto
  have h: "storedScryptHash demoRuntime dana \<noteq> []"
    by (simp add: dana_def storedRow_hash toHex_Nil_iff ne)
  have s: "cleanValue demoRuntime (dana ''Salt'') \<noteq> []"
    by (simp add: dana_def storedRow_salt lit_def)
  have "verifyPassword demoRuntime False dana (lit ''abc123'')
      = timingSafeEqual (scryptSync demoRuntime (lit ''abc123'') (cleanValue demoRuntime (dana ''Salt'')) 64)
          (fromHex (storedScryptHash demoRuntime dana))"
    using h s by (rule verifyPassword_strong)
  then show ?thesis
    by (simp add: dana_def storedRow_hash storedRow_salt fromHex_toHex timingSafeEqual_def)
qed

lemma dana_wrong_code: "verifyPassword demoRuntime False dana (lit ''guess'') = Inr False"
proof -
  let ?d = "scryptSync demoRuntime (lit ''abc123'') (lit ''s1'') 64"
  have ne: "?d \<noteq> []" using demo_scrypt_length[of "lit ''abc123''" "lit ''s1''" 64] by auto
  have diff: "scryptSync demoRuntime (lit ''guess'') (lit ''s1'') 64 \<noteq> ?d" by code_simp
  have h: "storedScryptHash demoRuntime dana \<noteq> []"
    by (simp add: dana_def storedRow_hash toHex_Nil_iff ne)
  have s: "cleanValue demoRuntime (dana ''Salt'') \<noteq> []"
    by (simp add: dana_def storedRow_salt lit_def)
  have "verifyPassword demoRuntime False dana (lit ''guess'')
      = timingSafeEqual (scryptSync demoRuntime (lit ''guess'') (cleanValue demoRuntime (dana ''Salt'')) 64)
          (fromHex (storedScryptHash demoRuntime dana))"
    using h s by (rule verifyPassword_strong)
  then show ?thesis using diff
    by (simp add: dana_def storedRow_hash storedRow_salt fromHex_toHex timingSafeEqual_def demo_scrypt_length)
qed

lemma credentials_fields:
  "cleanField demoRuntime (JObj [(''employeeId'', JScalar (JStr (lit eid))), (''code'', JScalar (JStr (lit code)))])
      ''employeeId'' = Inr (trim (lit eid))"
  "cleanField demoRuntime (JObj [(''employeeId'', JScalar (JStr (lit eid))), (''code'', JScalar (JStr (lit code)))])
      ''code'' = Inr (trim (lit code))"
  by (simp_all add: cleanField_scalar cleanValue_JStr)

lemma trims:
  "trim (lit '' 1001 '') = lit ''1001''" "trim (lit ''abc123'') = lit ''abc123''"
  "trim (lit ''2002'') = lit ''2002''" "trim (lit ''guess'') = lit ''guess''"
  "trim (lit ''  '') = []"
  by (simp_all add: trim_def lit_def isWhiteSpace_def)

theorem login_status_witness:
  "server demoRuntime False loginState 1000 (replicate 32 171) (loginRequest (Inl SyntaxError))
     = (SendJson 500 (ServerError SyntaxError), loginState)
   \<and> cleanField demoRuntime (projr (credentials '' 1001 '' ''  '')) ''employeeId'' = Inr (lit ''1001'')
   \<and> cleanField demoRuntime (projr (credentials '' 1001 '' ''  '')) ''code'' = Inr []
   \<and> server demoRuntime False loginState 1000 (replicate 32 171) (loginRequest (credentials '' 1001 '' ''  ''))
     = (SendJson 400 (ErrorBody ''Missing credentials''), loginState)
   \<and> findInstructor demoRuntime (store loginState) (lit ''2002'') = None
   \<and> server demoRuntime False loginState 1000 (replicate 32 171) (loginRequest (credentials ''2002'' ''abc123''))
     = (SendJson 401 (ErrorBody ''Invalid credentials''), loginState)
   \<and> findInstructor demoRuntime (store loginState) (lit ''1001'') = Some dana
   \<and> verifyPassword demoRuntime False dana (lit ''guess'') = Inr False
   \<and> server demoRuntime False loginState 1000 (replicate 32 171) (loginRequest (credentials '' 1001 '' ''guess''))
     = (SendJson 401 (ErrorBody ''Invalid credentials''), loginState)
   \<and> verifyPassword demoRuntime False dana (lit ''abc123'') = Inr True
   \<and> fst (server demoRuntime False loginState 1000 (replicate 32 171)
            (loginRequest (credentials '' 1001 '' ''abc123'')))
     = SendJson 200 (LoginOk (toHex (replicate 32 171)) (lit ''Dana''))"
proof -
  note t = login_status[where R = demoRuntime and allow = False and st = loginState and now = 1000
      and rnd = "replicate 32 171" and auth = None]
  have a: "server demoRuntime False loginState 1000 (replicate 32 171) (loginRequest (Inl SyntaxError))
     = (SendJson 500 (ServerError SyntaxError), loginState)"
    using t[where parsed = "Inl SyntaxError" and e = SyntaxError] by (simp add: loginRequest_def)
  have f1: "cleanField demoRuntime (projr (credentials '' 1001 '' ''  '')) ''employeeId'' = Inr (lit ''1001'')"
    and f2: "cleanField demoRuntime (projr (credentials '' 1001 '' ''  '')) ''code'' = Inr []"
    by (simp_all add: credentials_def credentials_fields trims)
  have b: "server demoRuntime False loginState 1000 (replicate 32 171) (loginRequest (credentials '' 1001 '' ''  ''))
     = (SendJson 400 (ErrorBody ''Missing credentials''), loginState)"
    using t[where parsed = "credentials '' 1001 '' ''  ''" and b = "projr (credentials '' 1001 '' ''  '')"
        and eid = "lit ''1001''" and code = "[]"] f1 f2
    by (simp add: loginRequest_def credentials_def)
  have c: "server demoRuntime False loginState 1000 (replicate 32 171) (loginRequest (credentials ''2002'' ''abc123''))
     = (SendJson 401 (ErrorBody ''Invalid credentials''), loginState)"
    using t[where parsed = "credentials ''2002'' ''abc123''" and b = "projr (credentials ''2002'' ''abc123'')"
        and eid = "lit ''2002''" and code = "lit ''abc123''"] nobody_found
    by (simp add: loginRequest_def credentials_def credentials_fields trims) (simp add: lit_def)
  have d: "server demoRuntime False loginState 1000 (replicate 32 171) (loginRequest (credentials '' 1001 '' ''guess''))
     = (SendJson 401 (ErrorBody ''Invalid credentials''), loginState)"
    using t[where parsed = "credentials '' 1001 '' ''guess''" and b = "projr (credentials '' 1001 '' ''guess'')"
        and eid = "lit ''1001''" and code = "lit ''guess''" and row = dana] dana_found dana_wrong_code
    by (simp add: loginRequest_def credentials_def credentials_fields trims) (simp add: lit_def)
  have n: "cleanValue demoRuntime (dana ''Employee'') = lit ''Dana''"
    by (simp add: dana_def storedRow_def cleanValue_def trim_def lit_def isWhiteSpace_def)
  have e: "fst (server demoRuntime False loginState 1000 (replicate 32 171)
            (loginRequest (credentials '' 1001 '' ''abc123'')))
     = SendJson 200 (LoginOk (toHex (replicate 32 171)) (lit ''Dana''))"
    using t[where parsed = "credentials '' 1001 '' ''abc123''" and b = "projr (credentials '' 1001 '' ''abc123'')"
        and eid = "lit ''1001''" and code = "lit ''abc123''" and row = dana] dana_found dana_right_code
    by (simp add: loginRequest_def credentials_def credentials_fields trims n) (simp add: lit_def)
  from a f1 f2 b nobody_found c dana_found dana_wrong_code d dana_right_code e show ?thesis
    by (intro conjI)
qed

text \<open>
  A login request whose body is not valid JSON is answered with status 500, which is none
  of 400, 401 and 200; so is one whose body is the JSON value \<^verbatim>\<open>null\<close>, where reading
  \<^verbatim>\<open>body.employeeId\<close> throws.
\<close>

theorem login_status_counterexample:
  "status (fst (server demoRuntime False \<lparr>store = initialStore, sessionMap = Map.empty\<rparr> 1000
      (replicate 32 171)
      \<lparr>reqMethod = ''POST'', url = ''/api/login'', authorization = None, body = Inl SyntaxError\<rparr>))
     = Some 500
   \<and> status (fst (server demoRuntime False \<lparr>store = initialStore, sessionMap = Map.empty\<rparr> 1000
      (replicate 32 171)
      \<lparr>reqMethod = ''POST'', url = ''/api/login'', authorization = None,
       body = Inr (JScalar JNull)\<rparr>))
     = Some 500"
  by (simp add: server_login login_def cleanField_def)

text \<open>
  The catch handler also answers a body that is the JSON value \<^verbatim>\<open>null\<close>, whatever the state,
  and a request that matches a record whose stored hash does not decode to as many bytes as
  the derivation has: \<^verbatim>\<open>crypto.timingSafeEqual\<close> throws on it.
\<close>

lemma login_null_body:
  "fst (server R allow st now rnd
      \<lparr>reqMethod = ''POST'', url = ''/api/login'', authorization = auth, body = Inr (JScalar JNull)\<rparr>)
     = SendJson 500 (ServerError TypeError)"
  by (simp add: server_login login_def cleanField_def)

lemma login_undecodable_hash:
  assumes "parsed = Inr b" "cleanField R b ''employeeId'' = Inr eid" "cleanField R b ''code'' = Inr code"
    "eid \<noteq> []" "code \<noteq> []" "findInstructor R (store st) eid = Some row"
    "storedScryptHash R row \<noteq> []" "cleanValue R (row ''Salt'') \<noteq> []"
    "length (fromHex (storedScryptHash R row)) \<noteq> length (scryptSync R code (cleanValue R (row ''Salt'')) 64)"
  shows "fst (server R allow st now rnd
      \<lparr>reqMethod = ''POST'', url = ''/api/login'', authorization = auth, body = parsed\<rparr>)
     = SendJson 500 (ServerError RangeError)"
  using assms by (simp add: server_login login_def verifyPassword_strong timingSafeEqual_def)

subsection \<open>Instructor records and their lookup\<close>

lemma normalizeRow_EmployeeID: "normalizeRow R row ''EmployeeID'' = row ''EmployeeID''"
  using normalizeRow_cases[of R row] by (elim disjE conjE) simp_all

lemma loadData_instructors:
  assumes "loadData R src st proto = (Inr (), st', proto')" and "instructorSheet src = Inr rows"
  shows "instructors st' = map (normalizeRow R) rows"
  using assms by (auto simp: loadData_def split: sum.splits)

text \<open>
  Claim C8, as the code has it. A snapshot holds one record for each row of the instructor
  sheet, in the sheet's order and with the row's employee id: the loader neither merges nor
  drops rows, so an id that occurs in several rows has several records. A lookup compares the
  trimmed \<^verbatim>\<open>EmployeeID\<close> of a record with the trimmed submitted id for equality, and returns the
  first record that matches, or none when no record does.
\<close>

theorem instructor_records:
  "(loadData R src st proto = (Inr (), st', proto') \<and> instructorSheet src = Inr rows \<longrightarrow>
      length (instructors st') = length rows
      \<and> map (\<lambda>item. cleanValue R (item ''EmployeeID'')) (instructors st')
          = map (\<lambda>row. cleanValue R (row ''EmployeeID'')) rows)
   \<and> (findInstructor R ds (cleanValue R submitted) = None \<longleftrightarrow>
        (\<forall>item \<in> set (instructors ds). cleanValue R (item ''EmployeeID'') \<noteq> cleanValue R submitted))
   \<and> (findInstructor R ds (cleanValue R submitted) = Some r \<longleftrightarrow>
        (\<exists>i < length (instructors ds). instructors ds ! i = r
           \<and> cleanValue R (r ''EmployeeID'') = cleanValue R submitted
           \<and> (\<forall>j < i. cleanValue R ((instructors ds ! j) ''EmployeeID'') \<noteq> cleanValue R submitted)))"
proof (intro conjI impI)
  assume a: "loadData R src st proto = (Inr (), st', proto') \<and> instructorSheet src = Inr rows"
  then have i: "instructors st' = map (normalizeRow R) rows"
    using loadData_instructors[of R src st proto st' proto' rows] by blast
  then show "length (instructors st') = length rows" by simp
  from i show "map (\<lambda>item. cleanValue R (item ''EmployeeID'')) (instructors st')
          = map (\<lambda>row. cleanValue R (row ''EmployeeID'')) rows"
    by (simp add: normalizeRow_EmployeeID)
next
  show "findInstructor R ds (cleanValue R submitted) = None \<longleftrightarrow>
        (\<forall>item \<in> set (instructors ds). cleanValue R (item ''EmployeeID'') \<noteq> cleanValue R submitted)"
    by (auto simp: findInstructor_def find_None_iff)
  show "findInstructor R ds (cleanValue R submitted) = Some r \<longleftrightarrow>
        (\<exists>i < length (instructors ds). instructors ds ! i = r
           \<and> cleanValue R (r ''EmployeeID'') = cleanValue R submitted
           \<and> (\<forall>j < i. cleanValue R ((instructors ds ! j) ''EmployeeID'') \<noteq> cleanValue R submitted))"
    by (auto simp: findInstructor_def find_Some_iff)
qed

lemma storedRow_id: "cleanValue R (storedRow h ''EmployeeID'') = lit ''1001''"
  by (simp add: storedRow_def cleanValue_JStr trim_def lit_def isWhiteSpace_def)

lemma duplicate_loaded:
  "loadData demoRuntime duplicateSheets initialStore Map.empty =
     (Inr (), \<lparr>instructors = [normalizeRow demoRuntime (storedRow [0xAB]),
                              normalizeRow demoRuntime (storedRow [0xCD])],
               programRules = Map.empty, globalMessages = []\<rparr>, Map.empty)"
  by (simp add: loadData_def duplicateSheets_def rulesFrom_foldl globalMessagesOf_def)

theorem instructor_records_witness:
  "loadData demoRuntime duplicateSheets initialStore Map.empty =
     (Inr (), \<lparr>instructors = [normalizeRow demoRuntime (storedRow [0xAB]),
                              normalizeRow demoRuntime (storedRow [0xCD])],
               programRules = Map.empty, globalMessages = []\<rparr>, Map.empty)
   \<and> instructorSheet duplicateSheets = Inr [storedRow [0xAB], storedRow [0xCD]]
   \<and> map (\<lambda>item. cleanValue demoRuntime (item ''EmployeeID''))
        [normalizeRow demoRuntime (storedRow [0xAB]), normalizeRow demoRuntime (storedRow [0xCD])]
       = [lit ''1001'', lit ''1001'']
   \<and> findInstructor demoRuntime (store loginState) (cleanValue demoRuntime (JStr (lit '' 1001 ''))) = Some dana
   \<and> findInstructor demoRuntime (store loginState) (cleanValue demoRuntime (JStr (lit ''100''))) = None"
proof -
  let ?st = "\<lparr>instructors = [normalizeRow demoRuntime (storedRow [0xAB]),
                                   normalizeRow demoRuntime (storedRow [0xCD])],
                    programRules = Map.empty, globalMessages = []\<rparr>"
  note t = instructor_records[where R = demoRuntime and src = duplicateSheets and st = initialStore
      and proto = Map.empty and proto' = Map.empty and st' = ?st and rows = "[storedRow [0xAB], storedRow [0xCD]]" and ds = "store loginState"]
  have s: "instructorSheet duplicateSheets = Inr [storedRow [0xAB], storedRow [0xCD]]"
    by (simp add: duplicateSheets_def)
  from t duplicate_loaded s
  have "map (\<lambda>item. cleanValue demoRuntime (item ''EmployeeID'')) (instructors ?st)
          = map (\<lambda>row. cleanValue demoRuntime (row ''EmployeeID'')) [storedRow [0xAB], storedRow [0xCD]]"
    by blast
  then have m: "map (\<lambda>item. cleanValue demoRuntime (item ''EmployeeID''))
        [normalizeRow demoRuntime (storedRow [0xAB]), normalizeRow demoRuntime (storedRow [0xCD])]
       = [lit ''1001'', lit ''1001'']"
    by (simp add: storedRow_id)
  have k1: "cleanValue demoRuntime (JStr (lit '' 1001 '')) = lit ''1001''"
    by (simp add: cleanValue_JStr trim_def lit_def isWhiteSpace_def)
  have k2: "cleanValue demoRuntime (JStr (lit ''100'')) = lit ''100''"
    by (simp add: cleanValue_JStr trim_def lit_def isWhiteSpace_def)
  have i: "instructors (store loginState) = [dana]" by (simp add: loginState_def)
  have d: "cleanValue demoRuntime (dana ''EmployeeID'') = lit ''1001''"
    by (simp add: dana_def storedRow_id)
  have f1: "findInstructor demoRuntime (store loginState) (cleanValue demoRuntime (JStr (lit '' 1001 ''))) = Some dana"
    using t[where submitted = "JStr (lit '' 1001 '')" and r = dana] by (simp add: i d k1)
  have f2: "findInstructor demoRuntime (store loginState) (cleanValue demoRuntime (JStr (lit ''100''))) = None"
    using t[where submitted = "JStr (lit ''100'')"] by (simp add: i d k2) (simp add: lit_def)
  from duplicate_loaded s m f1 f2 show ?thesis by (intro conjI)
qed

text \<open>
  Two rows of the sheet with the employee id 1001 give a snapshot with two records of that id.
\<close>

theorem instructor_records_counterexample:
  "length (filter (\<lambda>item. cleanValue demoRuntime (item ''EmployeeID'') = lit ''1001'')
             (instructors (fst (snd (loadData demoRuntime duplicateSheets initialStore Map.empty)))))
     = 2"
  by (simp add: duplicate_loaded normalizeRow_EmployeeID storedRow_id)

end
